theory Spec2Isabelle
  imports Complex_Main "HOL-Library.Word" "HOL-Library.Log_Nat"
begin

section \<open>The glTF compression add-on: data of the host scene\<close>

text \<open>
  The add-on (\<^verbatim>\<open>glTFcomp/scripts/gltfcmp.py\<close>) reads mesh objects of the host scene,
  turns each into a dictionary of arrays and hands it to the compression module
  \<^verbatim>\<open>glTFCompL\<close>. The host supplies the scene; what the source reads of it is a record
  here, one field per attribute the source reads.

  Single-precision values are modelled by the rational number they denote (every finite
  float is one); infinities and NaN are outside the model.
\<close>

type_synonym f32 = rat

datatype py_error =
    ImportError string
  | ValueError string
  | RuntimeError string
  | OSError string

text \<open>An image of a material's node tree: \<^verbatim>\<open>img.name\<close>, \<^verbatim>\<open>img.filepath\<close>,
  whether \<^verbatim>\<open>img.packed_file\<close> is set, \<^verbatim>\<open>img.size\<close> (width, height),
  \<^verbatim>\<open>img.channels\<close> and the flat float buffer \<^verbatim>\<open>img.pixels\<close>.\<close>

record image =
  img_name :: string
  img_filepath :: string
  img_packed_file :: bool
  img_size :: "nat \<times> nat"
  img_channels :: nat
  img_pixels :: "f32 list"

record node =
  node_type :: string
  node_image :: "image option"

text \<open>A material. \<^verbatim>\<open>metallic\<close> and \<^verbatim>\<open>roughness\<close> are read with
  \<^verbatim>\<open>getattr(mat, ..., default)\<close>: \<open>None\<close> stands for a material object without the
  attribute.\<close>

record material =
  mat_name :: string
  mat_diffuse_color :: "f32 list"
  mat_metallic :: "f32 option"
  mat_roughness :: "f32 option"
  mat_use_nodes :: bool
  mat_nodes :: "node list"

text \<open>The evaluated mesh as the host leaves it after triangulation,
  \<^verbatim>\<open>calc_normals_split\<close> and \<^verbatim>\<open>calc_loop_triangles\<close> (source lines 32 to 39):
  \<^verbatim>\<open>v.co\<close> of every vertex, \<^verbatim>\<open>loop.normal\<close> of every loop, \<^verbatim>\<open>tri.vertices\<close> of every
  loop triangle, the data of the active UV layer when the mesh has UV layers, and the
  material slots (an empty slot is \<open>None\<close>). Vertex indices are non-negative C ints of
  the host, so the conversion to \<^verbatim>\<open>uint32\<close> changes no value; they are naturals.\<close>

record mesh =
  mesh_vertices :: "(f32 \<times> f32 \<times> f32) list"
  mesh_loops :: "(f32 \<times> f32 \<times> f32) list"
  mesh_loop_triangles :: "(nat \<times> nat \<times> nat) list"
  mesh_uv_layers :: "(f32 \<times> f32) list option"
  mesh_materials :: "material option list"

text \<open>A scene object: its name, its type, the material slots of \<^verbatim>\<open>obj.data\<close>, and the
  outcome of the host calls inside the \<^verbatim>\<open>try\<close> block of \<^verbatim>\<open>extract_data\<close>: the
  triangulated mesh, or the exception one of them raised.\<close>

record scene_object =
  obj_name :: string
  obj_type :: string
  obj_data_materials :: "material option list"
  obj_eval_mesh :: "py_error + mesh"

section \<open>extract_data\<close>

text \<open>The entries of the \<^verbatim>\<open>materials\<close> list and the dictionary \<^verbatim>\<open>extract_data\<close> returns.\<close>

record material_record =
  mr_name :: string
  mr_base_color :: "f32 list"
  mr_metallic :: f32
  mr_roughness :: f32

record mesh_data =
  md_vertices :: "(f32 \<times> f32 \<times> f32) list"
  md_normals :: "(f32 \<times> f32 \<times> f32) list"
  md_indices :: "nat list"
  md_uvs :: "(f32 \<times> f32) list option"
  md_materials :: "material_record list"
  md_name :: string

text \<open>\<^verbatim>\<open>getattr(mat, name, default)\<close>.\<close>

definition getattr :: "'a option \<Rightarrow> 'a \<Rightarrow> 'a" where
  "getattr attr dflt = (case attr of None \<Rightarrow> dflt | Some v \<Rightarrow> v)"

definition material_entry :: "material \<Rightarrow> material_record" where
  "material_entry mat =
     \<lparr> mr_name = mat_name mat,
       mr_base_color = take 3 (mat_diffuse_color mat),
       mr_metallic = getattr (mat_metallic mat) 0,
       mr_roughness = getattr (mat_roughness mat) (1 / 2) \<rparr>"

text \<open>The loop \<^verbatim>\<open>for mat in mesh.materials: if mat: materials.append({...})\<close>,
  with the list built so far as accumulator.\<close>

fun collect_materials :: "material option list \<Rightarrow> material_record list \<Rightarrow> material_record list" where
  "collect_materials [] materials = materials"
| "collect_materials (None # slots) materials = collect_materials slots materials"
| "collect_materials (Some mat # slots) materials =
     collect_materials slots (materials @ [material_entry mat])"

text \<open>\<^verbatim>\<open>np.array([tri.vertices for tri in mesh.loop_triangles]).flatten()\<close>: the rows
  of the N by 3 array one after the other.\<close>

fun flatten_triangles :: "(nat \<times> nat \<times> nat) list \<Rightarrow> nat list" where
  "flatten_triangles [] = []"
| "flatten_triangles ((a, b, c) # tris) = a # b # c # flatten_triangles tris"

section \<open>NumPy: float32 products, the cast to uint8, reshape\<close>

text \<open>\<^verbatim>\<open>pixels * 255\<close> on a \<^verbatim>\<open>float32\<close> array is the exact product rounded to the
  nearest single-precision value (24 significant bits, ties to even, gradual underflow
  below \<open>2 powi (-126)\<close>). \<open>ilog2 x\<close> is the binary exponent of a positive \<open>x\<close>.
  Overflow to infinity is not modelled: a product beyond the largest float stays the
  large number it is, which the cast below treats as out of range like infinity.\<close>

definition ilog2 :: "rat \<Rightarrow> int" where
  "ilog2 x = (case quotient_of x of (p, q) \<Rightarrow>
     (let d = bitlen p - bitlen q in if 2 powi d \<le> x then d else d - 1))"

definition round_half_even :: "rat \<Rightarrow> int" where
  "round_half_even x =
     (let f = \<lfloor>x\<rfloor>; r = x - of_int f
      in if r < 1 / 2 then f else if 1 / 2 < r then f + 1 else if even f then f else f + 1)"

definition f32_round :: "rat \<Rightarrow> f32" where
  "f32_round x =
     (if x = 0 then 0
      else (let e = max (ilog2 \<bar>x\<bar>) (- 126); q = 2 powi (e - 23)
            in of_int (round_half_even (x / q)) * q))"

definition f32_mul :: "f32 \<Rightarrow> rat \<Rightarrow> f32" where
  "f32_mul a b = f32_round (a * b)"

text \<open>\<^verbatim>\<open>.astype(np.uint8)\<close> is the C conversion of a float to an unsigned byte: the
  fractional part is discarded (truncation toward zero) when the truncated value fits
  a byte. For every other value C leaves the result undefined and NumPy returns what
  the platform gives; that part is the parameter \<open>oor\<close>.\<close>

definition c_trunc :: "rat \<Rightarrow> int" where
  "c_trunc x = (if 0 \<le> x then \<lfloor>x\<rfloor> else \<lceil>x\<rceil>)"

definition astype_uint8 :: "(f32 \<Rightarrow> 8 word) \<Rightarrow> f32 \<Rightarrow> 8 word" where
  "astype_uint8 oor x = (if - 1 < x \<and> x < 256 then word_of_int (c_trunc x) else oor x)"

text \<open>\<open>chunk k n xs\<close>: the first \<open>k\<close> consecutive blocks of \<open>n\<close> elements of \<open>xs\<close>.
  \<^verbatim>\<open>pixels.reshape((height, width, channels))\<close> raises \<^verbatim>\<open>ValueError\<close> unless the
  buffer has \<open>height * width * channels\<close> elements, and otherwise reads the buffer in C
  order: \<open>height\<close> rows of \<open>width\<close> pixels of \<open>channels\<close> values.\<close>

fun chunk :: "nat \<Rightarrow> nat \<Rightarrow> 'a list \<Rightarrow> 'a list list" where
  "chunk 0 n xs = []"
| "chunk (Suc k) n xs = take n xs # chunk k n (drop n xs)"

definition reshape3 :: "nat \<Rightarrow> nat \<Rightarrow> nat \<Rightarrow> 'a list \<Rightarrow> py_error + 'a list list list" where
  "reshape3 h w c xs =
     (if length xs = h * w * c then Inr (map (chunk w c) (chunk h (w * c) xs))
      else Inl (ValueError ''cannot reshape array''))"

section \<open>get_texture_data\<close>

text \<open>The dictionary \<^verbatim>\<open>tex\<close>: of type \<^verbatim>\<open>'file'\<close> with path and name, or of type
  \<^verbatim>\<open>'packed'\<close> with name, width, height, channels and the byte array.\<close>

datatype texture =
    FileTexture string string
  | PackedTexture string nat nat nat "8 word list list list"

text \<open>What the add-on uses of its environment: \<^verbatim>\<open>os.path.dirname\<close>,
  \<^verbatim>\<open>bpy.path.abspath\<close>, \<^verbatim>\<open>os.path.normpath\<close>, \<^verbatim>\<open>os.makedirs(..., exist_ok=True)\<close>
  (\<open>Some e\<close> when it raises), the platform's out-of-range cast, and the outcome of
  \<^verbatim>\<open>import glTFCompL\<close>: an exception, or the module, which is its entry point
  \<^verbatim>\<open>ReadBlenderData\<close> (\<open>Some e\<close> when a call raises).\<close>

record backend_args =
  ba_mesh_data :: mesh_data
  ba_export_folder :: string
  ba_filepath :: string
  ba_textures :: "texture list"
  ba_use_draco :: bool
  ba_draco_level :: int
  ba_use_jpeg :: bool
  ba_jpeg_quality :: int
  ba_use_zip :: bool

type_synonym backend = "backend_args \<Rightarrow> py_error option"

record host =
  path_dirname :: "string \<Rightarrow> string"
  path_abspath :: "string \<Rightarrow> string"
  path_normpath :: "string \<Rightarrow> string"
  os_makedirs :: "string \<Rightarrow> py_error option"
  cast_out_of_range :: "f32 \<Rightarrow> 8 word"
  import_glTFCompL :: "py_error + backend"

text \<open>The \<^verbatim>\<open>elif img.packed_file\<close> branch (source lines 92 to 104).\<close>

definition decode_packed :: "host \<Rightarrow> image \<Rightarrow> py_error + texture" where
  "decode_packed h img =
     (case img_size img of (width, height) \<Rightarrow>
        (let pixels = img_pixels img; channels = img_channels img
         in case reshape3 height width channels pixels of
              Inl e \<Rightarrow> Inl e
            | Inr pixels3 \<Rightarrow>
                Inr (PackedTexture (img_name img) width height channels
                      (map (map (map (\<lambda>v. astype_uint8 (cast_out_of_range h) (f32_mul v 255))))
                         pixels3))))"

text \<open>The body of the innermost \<^verbatim>\<open>if\<close> (source lines 82 to 106): \<open>None\<close> is the
  dictionary left empty, which \<^verbatim>\<open>if tex:\<close> does not append.\<close>

definition texture_of_image :: "host \<Rightarrow> image \<Rightarrow> py_error + texture option" where
  "texture_of_image h img =
     (if img_filepath img \<noteq> [] then
        Inr (Some (FileTexture (path_normpath h (path_abspath h (img_filepath img))) (img_name img)))
      else if img_packed_file img then
        (case decode_packed h img of Inl e \<Rightarrow> Inl e | Inr tex \<Rightarrow> Inr (Some tex))
      else Inr None)"

text \<open>The two loops of \<^verbatim>\<open>get_texture_data\<close>: over the nodes of one material
  (\<^verbatim>\<open>if node.type == 'TEX_IMAGE' and node.image\<close>) and over the material slots
  (\<^verbatim>\<open>if mat and mat.use_nodes\<close>), with the list \<^verbatim>\<open>textures\<close> as accumulator. An
  exception ends both.\<close>

fun nodes_loop :: "host \<Rightarrow> node list \<Rightarrow> texture list \<Rightarrow> py_error + texture list" where
  "nodes_loop h [] textures = Inr textures"
| "nodes_loop h (nd # nodes) textures =
     (if node_type nd = ''TEX_IMAGE'' then
        (case node_image nd of
           None \<Rightarrow> nodes_loop h nodes textures
         | Some img \<Rightarrow>
             (case texture_of_image h img of
                Inl e \<Rightarrow> Inl e
              | Inr None \<Rightarrow> nodes_loop h nodes textures
              | Inr (Some tex) \<Rightarrow> nodes_loop h nodes (textures @ [tex])))
      else nodes_loop h nodes textures)"

fun materials_loop :: "host \<Rightarrow> material option list \<Rightarrow> texture list \<Rightarrow> py_error + texture list" where
  "materials_loop h [] textures = Inr textures"
| "materials_loop h (None # mats) textures = materials_loop h mats textures"
| "materials_loop h (Some mat # mats) textures =
     (if mat_use_nodes mat then
        (case nodes_loop h (mat_nodes mat) textures of
           Inl e \<Rightarrow> Inl e
         | Inr textures' \<Rightarrow> materials_loop h mats textures')
      else materials_loop h mats textures)"

definition get_texture_data :: "host \<Rightarrow> scene_object \<Rightarrow> py_error + texture list" where
  "get_texture_data h obj =
     (if obj_data_materials obj = [] then Inr []
      else materials_loop h (obj_data_materials obj) [])"

section \<open>The export operator\<close>

text \<open>What happens besides the returned values is recorded as events, in the order
  it happens: the operator's reports (level and message), the directory creation, the
  release of the temporary mesh (\<^verbatim>\<open>to_mesh_clear\<close>, of the object named) and the calls
  of the compression module.\<close>

datatype event =
    Report string string
  | MakeDirs string
  | ToMeshClear string
  | ReadBlenderData backend_args

text \<open>\<^verbatim>\<open>extract_data\<close>: for an object of type \<^verbatim>\<open>'MESH'\<close> the dictionary, or the
  exception raised inside the \<^verbatim>\<open>try\<close> block, in both cases after the \<^verbatim>\<open>finally\<close>
  clause has released the temporary mesh; \<^verbatim>\<open>None\<close> for every other object.\<close>

definition extract_data :: "scene_object \<Rightarrow> (py_error + mesh_data option) \<times> event list" where
  "extract_data obj =
     (if obj_type obj = ''MESH'' then
        (case obj_eval_mesh obj of
           Inl e \<Rightarrow> (Inl e, [ToMeshClear (obj_name obj)])
         | Inr mesh \<Rightarrow>
             (Inr (Some \<lparr> md_vertices = mesh_vertices mesh,
                          md_normals = mesh_loops mesh,
                          md_indices = flatten_triangles (mesh_loop_triangles mesh),
                          md_uvs = mesh_uv_layers mesh,
                          md_materials = collect_materials (mesh_materials mesh) [],
                          md_name = obj_name obj \<rparr>),
              [ToMeshClear (obj_name obj)]))
      else (Inr None, []))"

text \<open>The properties of the operator (\<^verbatim>\<open>self\<close>) and the part of the context that
  \<^verbatim>\<open>execute\<close> reads.\<close>

record operator =
  op_filepath :: string
  op_export_selected :: bool
  op_use_draco :: bool
  op_draco_level :: int
  op_use_jpeg :: bool
  op_jpeg_quality :: int
  op_use_zip :: bool

record bpy_context =
  ctx_selected_objects :: "scene_object list"
  ctx_scene_objects :: "scene_object list"

datatype exec_result = FINISHED | CANCELLED | Raised py_error

text \<open>The arguments of the call \<^verbatim>\<open>m.ReadBlenderData(...)\<close> (source lines 182 to 192).\<close>

definition call_args :: "operator \<Rightarrow> string \<Rightarrow> mesh_data \<Rightarrow> texture list \<Rightarrow> backend_args" where
  "call_args self export_folder md textures =
     \<lparr> ba_mesh_data = md,
       ba_export_folder = export_folder,
       ba_filepath = op_filepath self,
       ba_textures = textures,
       ba_use_draco = op_use_draco self,
       ba_draco_level = op_draco_level self,
       ba_use_jpeg = op_use_jpeg self,
       ba_jpeg_quality = op_jpeg_quality self,
       ba_use_zip = op_use_zip self \<rparr>"

definition load_glTFCompL_module :: "host \<Rightarrow> py_error + backend" where
  "load_glTFCompL_module h = import_glTFCompL h"

text \<open>The \<^verbatim>\<open>for obj in objects\<close> loop of \<^verbatim>\<open>execute\<close>: the exception that ended
  it, if one did, and the events. \<^verbatim>\<open>if not mesh_data: continue\<close> tests Python's truth
  value of what \<^verbatim>\<open>extract_data\<close> returned: \<^verbatim>\<open>None\<close> is false, and the dictionary,
  which always has its six keys, is true.\<close>

fun export_loop ::
  "host \<Rightarrow> backend \<Rightarrow> operator \<Rightarrow> string \<Rightarrow> scene_object list \<Rightarrow> py_error option \<times> event list" where
  "export_loop h m self export_folder [] = (None, [])"
| "export_loop h m self export_folder (obj # objects) =
     (if obj_type obj \<noteq> ''MESH'' then export_loop h m self export_folder objects
      else
        (case extract_data obj of
           (Inl e, evs) \<Rightarrow> (Some e, evs)
         | (Inr None, evs) \<Rightarrow>
             (case export_loop h m self export_folder objects of
                (r, evs') \<Rightarrow> (r, evs @ evs'))
         | (Inr (Some mesh_data), evs) \<Rightarrow>
             (case get_texture_data h obj of
                Inl e \<Rightarrow> (Some e, evs)
              | Inr textures \<Rightarrow>
                  (case m (call_args self export_folder mesh_data textures) of
                     Some e \<Rightarrow>
                       (Some e,
                        evs @ [ReadBlenderData (call_args self export_folder mesh_data textures)])
                   | None \<Rightarrow>
                       (case export_loop h m self export_folder objects of
                          (r, evs') \<Rightarrow>
                            (r, evs @ ReadBlenderData (call_args self export_folder mesh_data textures)
                                  # evs'))))))"

definition execute :: "host \<Rightarrow> bpy_context \<Rightarrow> operator \<Rightarrow> exec_result \<times> event list" where
  "execute h ctx self =
     (case load_glTFCompL_module h of
        Inl (ImportError e) \<Rightarrow>
          (CANCELLED, [Report ''ERROR'' (''Could not import glTFCompL: '' @ e)])
      | Inl err \<Rightarrow> (Raised err, [])
      | Inr m \<Rightarrow>
          (let objects = (if op_export_selected self then ctx_selected_objects ctx
                          else ctx_scene_objects ctx);
               export_folder = path_dirname h (op_filepath self)
           in case os_makedirs h export_folder of
                Some err \<Rightarrow> (Raised err, [MakeDirs export_folder])
              | None \<Rightarrow>
                  (case export_loop h m self export_folder objects of
                     (Some err, evs) \<Rightarrow> (Raised err, MakeDirs export_folder # evs)
                   | (None, evs) \<Rightarrow>
                       (FINISHED,
                        MakeDirs export_folder # evs
                          @ [Report ''INFO'' (''Export complete: '' @ op_filepath self)]))))"

text \<open>The integer properties \<^verbatim>\<open>draco_level\<close> and \<^verbatim>\<open>jpeg_quality\<close> are declared
  with \<^verbatim>\<open>bpy.props.IntProperty(min=..., max=...)\<close> (source lines 133 to 151). The host
  stores such a property as a C int with hard limits: assigning a Python integer that
  is no 32-bit int raises \<^verbatim>\<open>ValueError\<close>, and a 32-bit value below the minimum is
  silently replaced by the minimum, one above the maximum by the maximum. The operator
  runs \<^verbatim>\<open>execute\<close> on the properties as stored after the requested values were
  assigned; when an assignment raises, \<^verbatim>\<open>execute\<close> does not run.\<close>

definition c_int :: "int \<Rightarrow> bool" where
  "c_int v = (- (2 ^ 31) \<le> v \<and> v < 2 ^ 31)"

definition IntProperty_assign :: "int \<Rightarrow> int \<Rightarrow> int \<Rightarrow> py_error + int" where
  "IntProperty_assign lo hi v =
     (if c_int v then Inr (if v < lo then lo else if hi < v then hi else v)
      else Inl (ValueError ''value not in int range''))"

definition assign_properties :: "operator \<Rightarrow> py_error + operator" where
  "assign_properties requested =
     (case IntProperty_assign 1 9 (op_draco_level requested) of
        Inl e \<Rightarrow> Inl e
      | Inr level \<Rightarrow>
          (case IntProperty_assign 1 100 (op_jpeg_quality requested) of
             Inl e \<Rightarrow> Inl e
           | Inr quality \<Rightarrow>
               Inr (requested \<lparr> op_draco_level := level, op_jpeg_quality := quality \<rparr>)))"

definition run_operator :: "host \<Rightarrow> bpy_context \<Rightarrow> operator \<Rightarrow> exec_result \<times> event list" where
  "run_operator h ctx requested =
     (case assign_properties requested of
        Inl e \<Rightarrow> (Raised e, [])
      | Inr self \<Rightarrow> execute h ctx self)"

section \<open>Reading the events\<close>

text \<open>The calls of the compression module and the reports among the events, in
  order.\<close>

fun backend_calls :: "event list \<Rightarrow> backend_args list" where
  "backend_calls [] = []"
| "backend_calls (ReadBlenderData call # evs) = call # backend_calls evs"
| "backend_calls (ev # evs) = backend_calls evs"

fun reports :: "event list \<Rightarrow> (string \<times> string) list" where
  "reports [] = []"
| "reports (Report level msg # evs) = (level, msg) # reports evs"
| "reports (ev # evs) = reports evs"

text \<open>The objects \<^verbatim>\<open>execute\<close> iterates over and the folder it passes on.\<close>

definition chosen_objects :: "bpy_context \<Rightarrow> operator \<Rightarrow> scene_object list" where
  "chosen_objects ctx self =
     (if op_export_selected self then ctx_selected_objects ctx else ctx_scene_objects ctx)"

definition export_folder_of :: "host \<Rightarrow> operator \<Rightarrow> string" where
  "export_folder_of h self = path_dirname h (op_filepath self)"

text \<open>The call the loop makes for one object, when the extraction and the texture
  resolution of the object both return and the extraction returned a dictionary; and
  the objects for which that call exists and returns.\<close>

definition object_call :: "host \<Rightarrow> operator \<Rightarrow> string \<Rightarrow> scene_object \<Rightarrow> backend_args option" where
  "object_call h self export_folder obj =
     (case fst (extract_data obj) of
        Inr (Some md) \<Rightarrow>
          (case get_texture_data h obj of
             Inr textures \<Rightarrow> Some (call_args self export_folder md textures)
           | Inl e \<Rightarrow> None)
      | Inr None \<Rightarrow> None
      | Inl e \<Rightarrow> None)"

definition exports_cleanly :: "host \<Rightarrow> backend \<Rightarrow> operator \<Rightarrow> string \<Rightarrow> scene_object \<Rightarrow> bool" where
  "exports_cleanly h m self export_folder obj =
     (case object_call h self export_folder obj of
        None \<Rightarrow> False
      | Some call \<Rightarrow> m call = None)"

definition is_mesh :: "scene_object \<Rightarrow> bool" where
  "is_mesh obj = (obj_type obj = ''MESH'')"

section \<open>What the claims speak of\<close>



text \<open>A mesh object whose evaluated mesh has no vertices or no triangles.\<close>

definition degenerate :: "scene_object \<Rightarrow> bool" where
  "degenerate obj =
     (case obj_eval_mesh obj of
        Inl e \<Rightarrow> False
      | Inr mesh \<Rightarrow> mesh_vertices mesh = [] \<or> mesh_loop_triangles mesh = [])"

text \<open>The images \<^verbatim>\<open>get_texture_data\<close> visits, in the order of the material slots and
  of the nodes within a material (the image of every node of type \<^verbatim>\<open>TEX_IMAGE\<close> that
  has one, in the materials that use nodes), and the file record of an image.\<close>

fun node_images :: "node list \<Rightarrow> image list" where
  "node_images [] = []"
| "node_images (nd # nodes) =
     (if node_type nd = ''TEX_IMAGE'' then
        (case node_image nd of
           None \<Rightarrow> node_images nodes
         | Some img \<Rightarrow> img # node_images nodes)
      else node_images nodes)"

fun material_images :: "material option list \<Rightarrow> image list" where
  "material_images [] = []"
| "material_images (None # mats) = material_images mats"
| "material_images (Some mat # mats) =
     (if mat_use_nodes mat then node_images (mat_nodes mat) else []) @ material_images mats"

definition image_inputs :: "scene_object \<Rightarrow> image list" where
  "image_inputs obj = material_images (obj_data_materials obj)"

definition file_record :: "host \<Rightarrow> image \<Rightarrow> texture" where
  "file_record h img =
     FileTexture (path_normpath h (path_abspath h (img_filepath img))) (img_name img)"

text \<open>The byte the specification's formula asks for, in the specification's words:
  \<^verbatim>\<open>round(clamp(float_value, 0, 1) * 255)\<close>. It is compared with what the source
  computes. (\<open>round\<close> rounds a tie upward; rounding ties to even gives the same bytes
  for the values used below, 127.5 and 63.75.)\<close>

definition spec_byte :: "rat \<Rightarrow> int" where
  "spec_byte v = round (min 1 (max 0 v) * 255)"

section \<open>Example scenes\<close>

text \<open>Concrete materials, meshes, objects and hosts on which the properties below
  are evaluated.\<close>

definition red_material :: material where
  "red_material =
     \<lparr> mat_name = ''Red'', mat_diffuse_color = [4 / 5, 1 / 5, 1 / 5, 1],
       mat_metallic = None, mat_roughness = None,
       mat_use_nodes = False, mat_nodes = [] \<rparr>"

definition steel_material :: material where
  "steel_material =
     \<lparr> mat_name = ''Steel'', mat_diffuse_color = [1 / 2, 1 / 2, 1 / 2, 1],
       mat_metallic = Some 1, mat_roughness = Some (1 / 4),
       mat_use_nodes = False, mat_nodes = [] \<rparr>"

definition checker_image :: image where
  "checker_image =
     \<lparr> img_name = ''Checker'', img_filepath = [], img_packed_file = True,
       img_size = (2, 1), img_channels = 2,
       img_pixels = [1 / 2, 1, 0, 1 / 4] \<rparr>"

definition wood_image :: image where
  "wood_image =
     \<lparr> img_name = ''Wood'', img_filepath = ''/textures/wood.png'', img_packed_file = True,
       img_size = (2, 2), img_channels = 4,
       img_pixels = [1 / 2] \<rparr>"

definition checker_material :: material where
  "checker_material =
     \<lparr> mat_name = ''Checker'', mat_diffuse_color = [1, 1, 1, 1],
       mat_metallic = Some 0, mat_roughness = Some (1 / 2),
       mat_use_nodes = True,
       mat_nodes = [\<lparr> node_type = ''BSDF_PRINCIPLED'', node_image = None \<rparr>,
                    \<lparr> node_type = ''TEX_IMAGE'', node_image = Some checker_image \<rparr>] \<rparr>"

definition triangle_mesh :: mesh where
  "triangle_mesh =
     \<lparr> mesh_vertices = [(0, 0, 0), (1, 0, 0), (0, 1, 0)],
       mesh_loops = [(0, 0, 1), (0, 0, 1), (0, 0, 1)],
       mesh_loop_triangles = [(0, 1, 2)],
       mesh_uv_layers = None,
       mesh_materials = [Some red_material, None, Some steel_material] \<rparr>"

definition malformed_mesh :: mesh where
  "malformed_mesh =
     \<lparr> mesh_vertices = [(0, 0, 0)],
       mesh_loops = [(0, 0, 1), (0, 0, 1), (0, 0, 1)],
       mesh_loop_triangles = [(0, 1, 5)],
       mesh_uv_layers = None,
       mesh_materials = [] \<rparr>"

definition doubled_mesh :: mesh where
  "doubled_mesh =
     \<lparr> mesh_vertices = [(0, 0, 0), (0, 0, 0), (1, 0, 0)],
       mesh_loops = [(0, 0, 1), (0, 0, 1), (0, 0, 1)],
       mesh_loop_triangles = [(0, 1, 2)],
       mesh_uv_layers = None,
       mesh_materials = [] \<rparr>"

definition empty_mesh :: mesh where
  "empty_mesh =
     \<lparr> mesh_vertices = [], mesh_loops = [], mesh_loop_triangles = [],
       mesh_uv_layers = None, mesh_materials = [] \<rparr>"

definition triangle_object :: scene_object where
  "triangle_object =
     \<lparr> obj_name = ''Triangle'', obj_type = ''MESH'',
       obj_data_materials = [Some red_material, None, Some steel_material],
       obj_eval_mesh = Inr triangle_mesh \<rparr>"

definition wood_material :: material where
  "wood_material =
     \<lparr> mat_name = ''Wood'', mat_diffuse_color = [1, 1, 1, 1],
       mat_metallic = Some 0, mat_roughness = Some (1 / 2),
       mat_use_nodes = True,
       mat_nodes = [\<lparr> node_type = ''BSDF_PRINCIPLED'', node_image = None \<rparr>,
                    \<lparr> node_type = ''TEX_IMAGE'', node_image = Some wood_image \<rparr>] \<rparr>"

definition wood_object :: scene_object where
  "wood_object =
     \<lparr> obj_name = ''Table'', obj_type = ''MESH'',
       obj_data_materials = [None, Some red_material, Some wood_material],
       obj_eval_mesh = Inr triangle_mesh \<rparr>"

definition checker_object :: scene_object where
  "checker_object =
     \<lparr> obj_name = ''Board'', obj_type = ''MESH'',
       obj_data_materials = [Some checker_material],
       obj_eval_mesh = Inr triangle_mesh \<rparr>"

definition malformed_object :: scene_object where
  "malformed_object =
     \<lparr> obj_name = ''Broken'', obj_type = ''MESH'',
       obj_data_materials = [],
       obj_eval_mesh = Inr malformed_mesh \<rparr>"

definition doubled_object :: scene_object where
  "doubled_object =
     \<lparr> obj_name = ''Doubled'', obj_type = ''MESH'',
       obj_data_materials = [],
       obj_eval_mesh = Inr doubled_mesh \<rparr>"

definition empty_object :: scene_object where
  "empty_object =
     \<lparr> obj_name = ''Empty'', obj_type = ''MESH'',
       obj_data_materials = [],
       obj_eval_mesh = Inr empty_mesh \<rparr>"

definition faulty_object :: scene_object where
  "faulty_object =
     \<lparr> obj_name = ''Faulty'', obj_type = ''MESH'',
       obj_data_materials = [],
       obj_eval_mesh = Inl (ValueError ''inhomogeneous shape'') \<rparr>"

definition camera_object :: scene_object where
  "camera_object =
     \<lparr> obj_name = ''Camera'', obj_type = ''CAMERA'',
       obj_data_materials = [],
       obj_eval_mesh = Inl (RuntimeError ''Object does not have geometry data'') \<rparr>"

definition malformed_data :: mesh_data where
  "malformed_data =
     \<lparr> md_vertices = [(0, 0, 0)],
       md_normals = [(0, 0, 1), (0, 0, 1), (0, 0, 1)],
       md_indices = [0, 1, 5],
       md_uvs = None,
       md_materials = [],
       md_name = ''Broken'' \<rparr>"

definition doubled_data :: mesh_data where
  "doubled_data =
     \<lparr> md_vertices = [(0, 0, 0), (0, 0, 0), (1, 0, 0)],
       md_normals = [(0, 0, 1), (0, 0, 1), (0, 0, 1)],
       md_indices = [0, 1, 2],
       md_uvs = None,
       md_materials = [],
       md_name = ''Doubled'' \<rparr>"

definition empty_data :: mesh_data where
  "empty_data =
     \<lparr> md_vertices = [], md_normals = [], md_indices = [], md_uvs = None,
       md_materials = [], md_name = ''Empty'' \<rparr>"

definition two_mesh_scene :: bpy_context where
  "two_mesh_scene =
     \<lparr> ctx_selected_objects = [],
       ctx_scene_objects = [triangle_object, camera_object, checker_object] \<rparr>"

definition camera_scene :: bpy_context where
  "camera_scene = \<lparr> ctx_selected_objects = [], ctx_scene_objects = [camera_object] \<rparr>"

definition empty_scene :: bpy_context where
  "empty_scene = \<lparr> ctx_selected_objects = [], ctx_scene_objects = [empty_object] \<rparr>"

definition malformed_scene :: bpy_context where
  "malformed_scene =
     \<lparr> ctx_selected_objects = [],
       ctx_scene_objects = [triangle_object, malformed_object, checker_object] \<rparr>"

definition faulty_scene :: bpy_context where
  "faulty_scene =
     \<lparr> ctx_selected_objects = [],
       ctx_scene_objects = [triangle_object, faulty_object, checker_object] \<rparr>"

text \<open>A host for the examples: POSIX \<^verbatim>\<open>dirname\<close> on paths with a directory part,
  paths that are absolute and normal already, a directory creation that succeeds, the
  wrap-around cast of x86, and a compression module whose calls return.\<close>

definition posix_dirname :: "string \<Rightarrow> string" where
  "posix_dirname p = rev (drop 1 (dropWhile (\<lambda>c. c \<noteq> CHR ''/'') (rev p)))"

definition test_host :: host where
  "test_host =
     \<lparr> path_dirname = posix_dirname,
       path_abspath = (\<lambda>p. p),
       path_normpath = (\<lambda>p. p),
       os_makedirs = (\<lambda>d. None),
       cast_out_of_range = (\<lambda>x. word_of_int (c_trunc x)),
       import_glTFCompL = Inr (\<lambda>call. None) \<rparr>"

definition offline_host :: host where
  "offline_host =
     test_host \<lparr> import_glTFCompL := Inl (ImportError ''No module named glTFCompL'') \<rparr>"

definition export_options :: operator where
  "export_options =
     \<lparr> op_filepath = ''/out/scene.gltf'', op_export_selected = False,
       op_use_draco = True, op_draco_level = 5,
       op_use_jpeg = True, op_jpeg_quality = 75, op_use_zip = False \<rparr>"

definition out_of_range_options :: operator where
  "out_of_range_options = export_options \<lparr> op_draco_level := 20, op_jpeg_quality := 0 \<rparr>"

definition limited_options :: operator where
  "limited_options = export_options \<lparr> op_draco_level := 9, op_jpeg_quality := 1 \<rparr>"

definition huge_options :: operator where
  "huge_options = export_options \<lparr> op_draco_level := 2 ^ 40 \<rparr>"

section \<open>Materials\<close>

lemma collect_materials_append:
  "collect_materials slots acc = acc @ map material_entry [mat. Some mat \<leftarrow> slots]"
proof (induction slots arbitrary: acc)
  case Nil
  show ?case by simp
next
  case (Cons slot slots)
  show ?case
  proof (cases slot)
    case None
    with Cons show ?thesis by simp
  next
    case (Some mat)
    with Cons show ?thesis by simp
  qed
qed

lemma extract_data_mesh:
  assumes "obj_type obj = ''MESH''" and "obj_eval_mesh obj = Inr mesh"
  shows "extract_data obj =
     (Inr (Some \<lparr> md_vertices = mesh_vertices mesh,
                  md_normals = mesh_loops mesh,
                  md_indices = flatten_triangles (mesh_loop_triangles mesh),
                  md_uvs = mesh_uv_layers mesh,
                  md_materials = collect_materials (mesh_materials mesh) [],
                  md_name = obj_name obj \<rparr>),
      [ToMeshClear (obj_name obj)])"
  using assms by (simp add: extract_data_def)

text \<open>Claim C7. For a mesh object, \<^verbatim>\<open>extract_data\<close> returns in \<^verbatim>\<open>materials\<close> exactly
  one record per material slot that holds a material, in slot order; a material without
  a \<^verbatim>\<open>metallic\<close> attribute gets 0.0 and one without \<^verbatim>\<open>roughness\<close> gets 0.5 (a
  material that has them keeps its values); a mesh without material slots gives the
  empty list.\<close>

theorem material_collection:
  assumes "obj_type obj = ''MESH''" and "obj_eval_mesh obj = Inr mesh"
  shows "(\<exists>md. fst (extract_data obj) = Inr (Some md)
            \<and> md_materials md = map material_entry [mat. Some mat \<leftarrow> mesh_materials mesh]
            \<and> length (md_materials md) = length (filter (\<lambda>slot. slot \<noteq> None) (mesh_materials mesh))
            \<and> (mesh_materials mesh = [] \<longrightarrow> md_materials md = []))
       \<and> (\<forall>mat. mat_metallic mat = None \<longrightarrow> mr_metallic (material_entry mat) = 0)
       \<and> (\<forall>mat. mat_roughness mat = None \<longrightarrow> mr_roughness (material_entry mat) = 1 / 2)
       \<and> (\<forall>mat v. mat_metallic mat = Some v \<longrightarrow> mr_metallic (material_entry mat) = v)
       \<and> (\<forall>mat v. mat_roughness mat = Some v \<longrightarrow> mr_roughness (material_entry mat) = v)"
proof -
  have len: "length [mat. Some mat \<leftarrow> slots] = length (filter (\<lambda>slot. slot \<noteq> None) slots)"
    for slots :: "material option list"
    by (induction slots) (auto split: option.splits)
  have "fst (extract_data obj) = Inr (Some \<lparr> md_vertices = mesh_vertices mesh,
                  md_normals = mesh_loops mesh,
                  md_indices = flatten_triangles (mesh_loop_triangles mesh),
                  md_uvs = mesh_uv_layers mesh,
                  md_materials = collect_materials (mesh_materials mesh) [],
                  md_name = obj_name obj \<rparr>)"
    using extract_data_mesh [OF assms] by simp
  then have first: "\<exists>md. fst (extract_data obj) = Inr (Some md)
            \<and> md_materials md = map material_entry [mat. Some mat \<leftarrow> mesh_materials mesh]
            \<and> length (md_materials md) = length (filter (\<lambda>slot. slot \<noteq> None) (mesh_materials mesh))
            \<and> (mesh_materials mesh = [] \<longrightarrow> md_materials md = [])"
    by (simp add: collect_materials_append len)
  show ?thesis
    using first by (simp add: material_entry_def getattr_def)
qed

theorem material_collection_witness:
  "\<exists>md. fst (extract_data triangle_object) = Inr (Some md)
      \<and> md_materials md =
          [\<lparr> mr_name = ''Red'', mr_base_color = [4 / 5, 1 / 5, 1 / 5], mr_metallic = 0, mr_roughness = 1 / 2 \<rparr>,
           \<lparr> mr_name = ''Steel'', mr_base_color = [1 / 2, 1 / 2, 1 / 2], mr_metallic = 1, mr_roughness = 1 / 4 \<rparr>]"
proof -
  have t: "obj_type triangle_object = ''MESH''"
    by (simp add: triangle_object_def)
  have m: "obj_eval_mesh triangle_object = Inr triangle_mesh"
    by (simp add: triangle_object_def)
  show ?thesis
    using material_collection [OF t m]
    by (simp add: triangle_mesh_def material_entry_def getattr_def red_material_def steel_material_def) blast
qed

section \<open>The index buffer and the vertex buffer\<close>





text \<open>Claim C9 as stated fails: nothing is deduplicated. A mesh with two vertices at
  the same position, whose loops all carry the same normal and which has no UV layer,
  gives a vertex buffer with two equal entries (with equal normals at the same
  positions of the normal array and no UVs).\<close>

theorem vertex_buffer_counterexample:
  "fst (extract_data doubled_object) = Inr (Some doubled_data)
     \<and> \<not> distinct (md_vertices doubled_data)
     \<and> md_vertices doubled_data ! 0 = md_vertices doubled_data ! 1
     \<and> md_normals doubled_data ! 0 = md_normals doubled_data ! 1
     \<and> md_uvs doubled_data = None"
  by (simp add: extract_data_def doubled_object_def doubled_mesh_def doubled_data_def)

text \<open>Claim C9, amended. The vertex buffer is the list of the mesh's vertex positions,
  the normals are the loops' normals and the UVs the active layer's data, each in the
  host's order and unchanged: the vertex buffer is free of duplicates exactly when no two
  vertices of the mesh have the same position.\<close>

theorem vertex_buffer_is_copied:
  assumes "obj_type obj = ''MESH''" and "obj_eval_mesh obj = Inr mesh"
  shows "\<exists>md. fst (extract_data obj) = Inr (Some md)
           \<and> md_vertices md = mesh_vertices mesh
           \<and> md_normals md = mesh_loops mesh
           \<and> md_uvs md = mesh_uv_layers mesh
           \<and> distinct (md_vertices md) = distinct (mesh_vertices mesh)"
  using extract_data_mesh [OF assms] by simp

theorem vertex_buffer_is_copied_witness:
  "\<exists>md. fst (extract_data triangle_object) = Inr (Some md)
      \<and> md_vertices md = [(0, 0, 0), (1, 0, 0), (0, 1, 0)]
      \<and> md_normals md = [(0, 0, 1), (0, 0, 1), (0, 0, 1)]
      \<and> md_uvs md = None
      \<and> distinct (md_vertices md)"
proof -
  have t: "obj_type triangle_object = ''MESH''"
    by (simp add: triangle_object_def)
  have m: "obj_eval_mesh triangle_object = Inr triangle_mesh"
    by (simp add: triangle_object_def)
  from vertex_buffer_is_copied [OF t m] obtain md where
    res: "fst (extract_data triangle_object) = Inr (Some md)" and
    vs: "md_vertices md = mesh_vertices triangle_mesh" and
    ns: "md_normals md = mesh_loops triangle_mesh" and
    uvs: "md_uvs md = mesh_uv_layers triangle_mesh"
    by blast
  have "md_vertices md = [(0, 0, 0), (1, 0, 0), (0, 1, 0)]"
    using vs by (simp add: triangle_mesh_def)
  moreover have "md_normals md = [(0, 0, 1), (0, 0, 1), (0, 0, 1)]"
    using ns by (simp add: triangle_mesh_def)
  moreover have "md_uvs md = None"
    using uvs by (simp add: triangle_mesh_def)
  moreover have "distinct (md_vertices md)"
    using vs by (simp add: triangle_mesh_def)
  ultimately show ?thesis
    using res by blast
qed

section \<open>Textures\<close>

lemma length_chunk: "length (chunk k n xs) = k"
  by (induction k arbitrary: xs) simp_all

lemma nth_chunk: "i < k \<Longrightarrow> chunk k n xs ! i = take n (drop (i * n) xs)"
proof (induction k arbitrary: i xs)
  case 0
  then show ?case by simp
next
  case (Suc k)
  show ?case
  proof (cases i)
    case 0
    then show ?thesis by simp
  next
    case (Suc j)
    with Suc.prems have "j < k" by simp
    then have "chunk k n (drop n xs) ! j = take n (drop (j * n) (drop n xs))"
      by (rule Suc.IH)
    with Suc show ?thesis by (simp add: add.commute)
  qed
qed

lemma block_le: "x < w \<Longrightarrow> x * c + c \<le> w * (c::nat)"
proof -
  assume "x < w"
  then have "Suc x \<le> w" by simp
  then have "Suc x * c \<le> w * c" by (rule mult_le_mono1)
  then show ?thesis by (simp add: add.commute)
qed

lemma nth_reshape:
  assumes len: "length xs = h * w * c" and y: "y < h" and x: "x < w" and k: "k < c"
  shows "length (map (chunk w c) (chunk h (w * c) xs) ! y) = w"
    and "length (map (chunk w c) (chunk h (w * c) xs) ! y ! x) = c"
    and "map (chunk w c) (chunk h (w * c) xs) ! y ! x ! k = xs ! ((y * w + x) * c + k)"
proof -
  let ?row = "take (w * c) (drop (y * (w * c)) xs)"
  have row: "map (chunk w c) (chunk h (w * c) xs) ! y = chunk w c ?row"
    using y by (simp add: length_chunk nth_chunk)
  show "length (map (chunk w c) (chunk h (w * c) xs) ! y) = w"
    by (simp add: row length_chunk)
  have "y * (w * c) + w * c \<le> h * (w * c)"
    using y by (rule block_le)
  then have rowlen: "length ?row = w * c"
    using len by (simp add: mult.assoc)
  have xc: "x * c + c \<le> w * c"
    using x by (rule block_le)
  have px: "map (chunk w c) (chunk h (w * c) xs) ! y ! x = take c (drop (x * c) ?row)"
    using x by (simp add: row nth_chunk)
  show "length (map (chunk w c) (chunk h (w * c) xs) ! y ! x) = c"
    using xc rowlen by (simp add: px)
  have inrow: "x * c + k < w * c"
    using k xc by simp
  have len': "length xs = h * (w * c)"
    using len by (simp add: mult.assoc)
  have start: "y * (w * c) \<le> length xs"
    using \<open>y * (w * c) + w * c \<le> h * (w * c)\<close> len' by linarith
  have "take c (drop (x * c) ?row) ! k = drop (x * c) ?row ! k"
    using k by simp
  also have "\<dots> = ?row ! (x * c + k)"
  proof -
    have "x * c \<le> length ?row"
      using xc rowlen by linarith
    then show ?thesis by (rule nth_drop)
  qed
  also have "\<dots> = drop (y * (w * c)) xs ! (x * c + k)"
    using inrow by (rule nth_take)
  also have "\<dots> = xs ! (y * (w * c) + (x * c + k))"
    using start by (rule nth_drop)
  also have "y * (w * c) + (x * c + k) = (y * w + x) * c + k"
    by (simp add: algebra_simps)
  finally show "map (chunk w c) (chunk h (w * c) xs) ! y ! x ! k = xs ! ((y * w + x) * c + k)"
    by (simp add: px)
qed

lemma astype_uint8_in_range:
  assumes "- 1 < p" and "p < 256"
  shows "uint (astype_uint8 oor p) = c_trunc p"
proof -
  have lo: "0 \<le> c_trunc p"
    using assms by (simp add: c_trunc_def)
  have hi: "c_trunc p < 256"
    using assms by (simp add: c_trunc_def floor_less_iff ceiling_less_iff)
  have "uint (word_of_int (c_trunc p) :: 8 word) = c_trunc p mod 256"
    by (simp add: uint_word_of_int)
  with lo hi have "uint (word_of_int (c_trunc p) :: 8 word) = c_trunc p"
    by simp
  with assms show ?thesis
    by (simp add: astype_uint8_def)
qed

lemma f32_mul_examples:
  "f32_mul (1 / 2) 255 = 255 / 2" "f32_mul 1 255 = 255" "f32_mul 0 255 = 0"
  "f32_mul (1 / 4) 255 = 255 / 4"
  by code_simp+

lemma floor_examples:
  "\<lfloor>255 / 2 :: rat\<rfloor> = 127" "\<lfloor>255 / 4 :: rat\<rfloor> = 63" "\<lfloor>257 / 4 :: rat\<rfloor> = 64"
  by code_simp+

lemma astype_uint8_examples:
  "astype_uint8 oor (255 / 2) = 127" "astype_uint8 oor 255 = 255" "astype_uint8 oor 0 = 0"
  "astype_uint8 oor (255 / 4) = 63"
  by (simp_all add: astype_uint8_def c_trunc_def floor_examples)

lemma reshape_example:
  "reshape3 (Suc 0) 2 2 [a, b, c, d] = Inr [[[a, b], [c, d]]]"
  by (simp add: reshape3_def numeral_2_eq_2)

text \<open>Claim C3 as stated fails on the byte values: the source multiplies by 255 and
  casts, which truncates; it neither clamps nor rounds. The packed 2 by 1 image with two
  channels and the stored values 0.5, 1.0, 0.0, 0.25 is decoded to the bytes 127, 255,
  0, 63, where the claim's formula gives 128 for 0.5 and 64 for 0.25.\<close>

theorem packed_bytes_counterexample:
  "get_texture_data test_host checker_object
     = Inr [PackedTexture ''Checker'' 2 1 2 [[[127, 255], [0, 63]]]]
   \<and> spec_byte (1 / 2) = 128 \<and> spec_byte (1 / 4) = 64"
proof -
  have "decode_packed test_host checker_image
          = Inr (PackedTexture ''Checker'' 2 1 2 [[[127, 255], [0, 63]]])"
    by (simp add: decode_packed_def checker_image_def reshape_example f32_mul_examples
          astype_uint8_examples)
  then have "texture_of_image test_host checker_image
          = Inr (Some (PackedTexture ''Checker'' 2 1 2 [[[127, 255], [0, 63]]]))"
    by (simp add: texture_of_image_def checker_image_def)
  then have "get_texture_data test_host checker_object
     = Inr [PackedTexture ''Checker'' 2 1 2 [[[127, 255], [0, 63]]]]"
    by (simp add: get_texture_data_def checker_object_def checker_material_def)
  moreover have "spec_byte (1 / 2) = 128" "spec_byte (1 / 4) = 64"
    by (simp_all add: spec_byte_def round_def floor_examples)
  ultimately show ?thesis by simp
qed

text \<open>Claim C3, amended. For an embedded image (no file path, packed) whose pixel
  buffer has height * width * channels values, the texture record keeps the image's
  width, height and channel count, and its data has the row-major (height, width,
  channels) layout: the byte at row y, column x, channel k comes from the stored value
  at position (y * width + x) * channels + k. That byte is the cast to uint8 of the
  single-precision product of the stored value and 255: whenever the product lies
  strictly between -1 and 256 it is the product truncated toward zero (nothing is
  clamped and nothing is rounded to nearest).\<close>

theorem decode_packed_bytes:
  assumes nofile: "img_filepath img = []" and packed: "img_packed_file img"
    and size: "img_size img = (w, h)"
    and len: "length (img_pixels img) = h * w * img_channels img"
  shows "\<exists>dat. texture_of_image hst img
              = Inr (Some (PackedTexture (img_name img) w h (img_channels img) dat))
          \<and> length dat = h
          \<and> (\<forall>y x k. y < h \<and> x < w \<and> k < img_channels img \<longrightarrow>
                length (dat ! y) = w \<and> length (dat ! y ! x) = img_channels img
                \<and> dat ! y ! x ! k
                    = astype_uint8 (cast_out_of_range hst)
                        (f32_mul (img_pixels img ! ((y * w + x) * img_channels img + k)) 255)
                \<and> (- 1 < f32_mul (img_pixels img ! ((y * w + x) * img_channels img + k)) 255
                      \<and> f32_mul (img_pixels img ! ((y * w + x) * img_channels img + k)) 255 < 256
                    \<longrightarrow> uint (dat ! y ! x ! k)
                          = c_trunc (f32_mul (img_pixels img ! ((y * w + x) * img_channels img + k)) 255)))"
proof -
  let ?c = "img_channels img"
  let ?px = "img_pixels img"
  let ?f = "\<lambda>v. astype_uint8 (cast_out_of_range hst) (f32_mul v 255)"
  let ?pix = "map (chunk w ?c) (chunk h (w * ?c) ?px)"
  let ?dat = "map (map (map ?f)) ?pix"
  have res: "texture_of_image hst img = Inr (Some (PackedTexture (img_name img) w h ?c ?dat))"
    using nofile packed size len
    by (simp add: texture_of_image_def decode_packed_def reshape3_def Let_def)
  have rows: "length ?dat = h"
    by (simp add: length_chunk)
  have cell: "length (?dat ! y) = w \<and> length (?dat ! y ! x) = ?c
      \<and> ?dat ! y ! x ! k = ?f (?px ! ((y * w + x) * ?c + k))"
    if "y < h" "x < w" "k < ?c" for y x k
  proof -
    note r = nth_reshape [OF len that]
    have y': "y < length ?pix"
      using that by (simp add: length_chunk)
    have x': "x < length (?pix ! y)"
      using that r(1) by simp
    have k': "k < length (?pix ! y ! x)"
      using that r(2) by simp
    have "?dat ! y = map (map ?f) (?pix ! y)"
      using y' by (rule nth_map)
    moreover have "map (map ?f) (?pix ! y) ! x = map ?f (?pix ! y ! x)"
      using x' by (rule nth_map)
    moreover have "map ?f (?pix ! y ! x) ! k = ?f (?pix ! y ! x ! k)"
      using k' by (rule nth_map)
    ultimately show ?thesis
      using r by simp
  qed
  have "\<forall>y x k. y < h \<and> x < w \<and> k < ?c \<longrightarrow>
                length (?dat ! y) = w \<and> length (?dat ! y ! x) = ?c
                \<and> ?dat ! y ! x ! k = ?f (?px ! ((y * w + x) * ?c + k))
                \<and> (- 1 < f32_mul (?px ! ((y * w + x) * ?c + k)) 255
                      \<and> f32_mul (?px ! ((y * w + x) * ?c + k)) 255 < 256
                    \<longrightarrow> uint (?dat ! y ! x ! k)
                          = c_trunc (f32_mul (?px ! ((y * w + x) * ?c + k)) 255))"
  proof (intro allI impI, elim conjE)
    fix y x k
    assume b: "y < h" "x < w" "k < ?c"
    from cell [OF b] have c1: "length (?dat ! y) = w" and c2: "length (?dat ! y ! x) = ?c"
      and c3: "?dat ! y ! x ! k = ?f (?px ! ((y * w + x) * ?c + k))"
      by blast+
    have c4: "uint (?dat ! y ! x ! k) = c_trunc (f32_mul (?px ! ((y * w + x) * ?c + k)) 255)"
      if "- 1 < f32_mul (?px ! ((y * w + x) * ?c + k)) 255"
        "f32_mul (?px ! ((y * w + x) * ?c + k)) 255 < 256"
      using astype_uint8_in_range [OF that] c3 by simp
    from c1 c2 c3 c4
    show "length (?dat ! y) = w \<and> length (?dat ! y ! x) = ?c
                \<and> ?dat ! y ! x ! k = ?f (?px ! ((y * w + x) * ?c + k))
                \<and> (- 1 < f32_mul (?px ! ((y * w + x) * ?c + k)) 255
                      \<and> f32_mul (?px ! ((y * w + x) * ?c + k)) 255 < 256
                    \<longrightarrow> uint (?dat ! y ! x ! k)
                          = c_trunc (f32_mul (?px ! ((y * w + x) * ?c + k)) 255))"
      by blast
  qed
  with res rows show ?thesis
    by (intro exI [of _ ?dat] conjI)
qed

theorem decode_packed_bytes_witness:
  "\<exists>dat. texture_of_image test_host checker_image
            = Inr (Some (PackedTexture ''Checker'' 2 1 2 dat))
      \<and> length dat = 1
      \<and> uint (dat ! 0 ! 0 ! 0) = 127
      \<and> uint (dat ! 0 ! 1 ! 1) = 63"
proof -
  have nofile: "img_filepath checker_image = []" and packed: "img_packed_file checker_image"
    and size: "img_size checker_image = (2, 1)"
    and len: "length (img_pixels checker_image) = 1 * 2 * img_channels checker_image"
    by (simp_all add: checker_image_def)
  from decode_packed_bytes [OF nofile packed size len, of test_host] obtain dat where
    res: "texture_of_image test_host checker_image
            = Inr (Some (PackedTexture (img_name checker_image) 2 1 (img_channels checker_image) dat))"
    and rows: "length dat = 1"
    and cells: "\<And>y x k. y < 1 \<and> x < 2 \<and> k < img_channels checker_image \<longrightarrow>
       (- 1 < f32_mul (img_pixels checker_image ! ((y * 2 + x) * img_channels checker_image + k)) 255
          \<and> f32_mul (img_pixels checker_image ! ((y * 2 + x) * img_channels checker_image + k)) 255 < 256
        \<longrightarrow> uint (dat ! y ! x ! k)
              = c_trunc (f32_mul (img_pixels checker_image ! ((y * 2 + x) * img_channels checker_image + k)) 255))"
    by blast
  have "uint (dat ! 0 ! 0 ! 0) = 127"
    using cells [of 0 0 0]
    by (simp add: checker_image_def f32_mul_examples c_trunc_def floor_examples)
  moreover have "uint (dat ! 0 ! 1 ! 1) = 63"
    using cells [of 0 1 1]
    by (simp add: checker_image_def f32_mul_examples c_trunc_def floor_examples)
  moreover have "texture_of_image test_host checker_image
            = Inr (Some (PackedTexture ''Checker'' 2 1 2 dat))"
    using res by (simp add: checker_image_def)
  ultimately show ?thesis
    using rows by blast
qed

lemma texture_of_file_image:
  "img_filepath img \<noteq> [] \<Longrightarrow> texture_of_image h img = Inr (Some (file_record h img))"
  by (simp add: texture_of_image_def file_record_def)

lemma nodes_loop_file_paths:
  assumes "\<forall>i\<in>set (node_images nodes). img_filepath i \<noteq> []"
  shows "nodes_loop h nodes textures = Inr (textures @ map (file_record h) (node_images nodes))"
  using assms
proof (induction nodes arbitrary: textures)
  case Nil
  show ?case by simp
next
  case (Cons nd nodes)
  show ?case
  proof (cases "node_type nd = ''TEX_IMAGE''")
    case False
    with Cons show ?thesis by simp
  next
    case True
    show ?thesis
    proof (cases "node_image nd")
      case None
      with True Cons show ?thesis by simp
    next
      case (Some img)
      with True Cons.prems have "img_filepath img \<noteq> []"
        and rest: "\<forall>i\<in>set (node_images nodes). img_filepath i \<noteq> []"
        by simp_all
      then have "texture_of_image h img = Inr (Some (file_record h img))"
        by (simp add: texture_of_file_image)
      with True Some Cons.IH [OF rest] show ?thesis by simp
    qed
  qed
qed

lemma materials_loop_file_paths:
  assumes "\<forall>i\<in>set (material_images mats). img_filepath i \<noteq> []"
  shows "materials_loop h mats textures
           = Inr (textures @ map (file_record h) (material_images mats))"
  using assms
proof (induction mats arbitrary: textures)
  case Nil
  show ?case by simp
next
  case (Cons slot mats)
  show ?case
  proof (cases slot)
    case None
    with Cons show ?thesis by simp
  next
    case (Some mat)
    show ?thesis
    proof (cases "mat_use_nodes mat")
      case False
      with Some Cons show ?thesis by simp
    next
      case True
      with Some Cons.prems have here: "\<forall>i\<in>set (node_images (mat_nodes mat)). img_filepath i \<noteq> []"
        and rest: "\<forall>i\<in>set (material_images mats). img_filepath i \<noteq> []"
        by simp_all
      from nodes_loop_file_paths [OF here] Cons.IH [OF rest] Some True
      show ?thesis by simp
    qed
  qed
qed

lemma nodes_loop_keeps:
  assumes "nodes_loop h nodes textures = Inr result"
  shows "set textures \<subseteq> set result
       \<and> (\<forall>i\<in>set (node_images nodes). img_filepath i \<noteq> [] \<longrightarrow> file_record h i \<in> set result)"
  using assms
proof (induction nodes arbitrary: textures)
  case Nil
  then show ?case by simp
next
  case (Cons nd nodes)
  show ?case
  proof (cases "node_type nd = ''TEX_IMAGE''")
    case False
    with Cons show ?thesis by simp
  next
    case True
    show ?thesis
    proof (cases "node_image nd")
      case None
      with True Cons show ?thesis by simp
    next
      case (Some img)
      show ?thesis
      proof (cases "texture_of_image h img")
        case (Inl e)
        with True Some Cons.prems show ?thesis by simp
      next
        case (Inr tex)
        show ?thesis
        proof (cases tex)
          case None
          with Inr have "img_filepath img = []"
            by (auto simp add: texture_of_image_def split: if_splits sum.splits)
          moreover from None Inr True Some Cons.prems
          have "nodes_loop h nodes textures = Inr result" by simp
          ultimately show ?thesis
            using Cons.IH True Some by simp
        next
          case (Some t)
          with Inr True \<open>node_image nd = Some img\<close> Cons.prems
          have run: "nodes_loop h nodes (textures @ [t]) = Inr result" by simp
          from Cons.IH [OF run] have sub: "set (textures @ [t]) \<subseteq> set result"
            and rest: "\<forall>i\<in>set (node_images nodes). img_filepath i \<noteq> [] \<longrightarrow> file_record h i \<in> set result"
            by blast+
          have "file_record h img \<in> set result" if "img_filepath img \<noteq> []"
          proof -
            from that Inr Some have "t = file_record h img"
              by (simp add: texture_of_file_image)
            with sub show ?thesis by simp
          qed
          with sub rest True \<open>node_image nd = Some img\<close> show ?thesis
            by simp
        qed
      qed
    qed
  qed
qed

lemma materials_loop_keeps:
  assumes "materials_loop h mats textures = Inr result"
  shows "set textures \<subseteq> set result
       \<and> (\<forall>i\<in>set (material_images mats). img_filepath i \<noteq> [] \<longrightarrow> file_record h i \<in> set result)"
  using assms
proof (induction mats arbitrary: textures)
  case Nil
  then show ?case by simp
next
  case (Cons slot mats)
  show ?case
  proof (cases slot)
    case None
    with Cons show ?thesis by simp
  next
    case (Some mat)
    show ?thesis
    proof (cases "mat_use_nodes mat")
      case False
      with Some Cons show ?thesis by simp
    next
      case True
      show ?thesis
      proof (cases "nodes_loop h (mat_nodes mat) textures")
        case (Inl e)
        with True Some Cons.prems show ?thesis by simp
      next
        case (Inr mid)
        with True Some Cons.prems have run: "materials_loop h mats mid = Inr result"
          by simp
        from nodes_loop_keeps [OF Inr] have a: "set textures \<subseteq> set mid"
          and b: "\<forall>i\<in>set (node_images (mat_nodes mat)). img_filepath i \<noteq> [] \<longrightarrow> file_record h i \<in> set mid"
          by blast+
        from Cons.IH [OF run] have c: "set mid \<subseteq> set result"
          and d: "\<forall>i\<in>set (material_images mats). img_filepath i \<noteq> [] \<longrightarrow> file_record h i \<in> set result"
          by blast+
        from a b c d Some True show ?thesis
          by auto
      qed
    qed
  qed
qed

lemma get_texture_data_loop:
  "get_texture_data h obj = materials_loop h (obj_data_materials obj) []"
  by (simp add: get_texture_data_def)

text \<open>Claim C10. An image with a non-empty file path gives the file record with the
  normalised absolute path and the image's name, whatever its packed data is: the
  result does not depend on \<^verbatim>\<open>packed_file\<close>, the size, the channel count or the pixel
  buffer, none of which is read. In the node loop such an image (on a node of type
  \<^verbatim>\<open>TEX_IMAGE\<close>) appends that one record. So \<^verbatim>\<open>get_texture_data\<close> emits the file
  record of every such image it visits: whenever it returns, the record is among the
  textures, and for an object all of whose images have a file path it returns exactly
  their file records, in order, packed data or not.\<close>

theorem file_path_takes_precedence:
  assumes "img_filepath img \<noteq> []"
  shows "texture_of_image hst img
           = Inr (Some (FileTexture (path_normpath hst (path_abspath hst (img_filepath img)))
                          (img_name img)))
       \<and> texture_of_image hst
            (img\<lparr>img_packed_file := pk, img_size := sz, img_channels := ch, img_pixels := px\<rparr>)
           = texture_of_image hst img
       \<and> (node_type nd = ''TEX_IMAGE'' \<and> node_image nd = Some img \<longrightarrow>
            nodes_loop hst (nd # nodes) textures
              = nodes_loop hst nodes
                  (textures @ [FileTexture (path_normpath hst (path_abspath hst (img_filepath img)))
                                 (img_name img)]))
       \<and> (img \<in> set (image_inputs obj) \<longrightarrow>
            (\<forall>result. get_texture_data hst obj = Inr result \<longrightarrow>
               FileTexture (path_normpath hst (path_abspath hst (img_filepath img)))
                 (img_name img) \<in> set result))
       \<and> ((\<forall>i\<in>set (image_inputs obj). img_filepath i \<noteq> []) \<longrightarrow>
            get_texture_data hst obj = Inr (map (file_record hst) (image_inputs obj))
            \<and> file_record hst img
                = FileTexture (path_normpath hst (path_abspath hst (img_filepath img)))
                    (img_name img))"
proof -
  have one: "texture_of_image hst img
           = Inr (Some (FileTexture (path_normpath hst (path_abspath hst (img_filepath img)))
                          (img_name img)))"
    using assms by (simp add: texture_of_image_def)
  have two: "texture_of_image hst
            (img\<lparr>img_packed_file := pk, img_size := sz, img_channels := ch, img_pixels := px\<rparr>)
           = texture_of_image hst img"
    using assms by (simp add: texture_of_image_def)
  have three: "nodes_loop hst (nd # nodes) textures
              = nodes_loop hst nodes
                  (textures @ [FileTexture (path_normpath hst (path_abspath hst (img_filepath img)))
                                 (img_name img)])"
    if "node_type nd = ''TEX_IMAGE''" "node_image nd = Some img"
    using that one by simp
  have four: "FileTexture (path_normpath hst (path_abspath hst (img_filepath img)))
                 (img_name img) \<in> set result"
    if mem: "img \<in> set (image_inputs obj)" and ret: "get_texture_data hst obj = Inr result"
    for result
  proof -
    from ret have "materials_loop hst (obj_data_materials obj) [] = Inr result"
      by (simp add: get_texture_data_loop)
    from materials_loop_keeps [OF this] mem assms have "file_record hst img \<in> set result"
      by (simp add: image_inputs_def)
    then show ?thesis
      by (simp add: file_record_def)
  qed
  have five: "get_texture_data hst obj = Inr (map (file_record hst) (image_inputs obj))"
    if "\<forall>i\<in>set (image_inputs obj). img_filepath i \<noteq> []"
  proof -
    from that have "\<forall>i\<in>set (material_images (obj_data_materials obj)). img_filepath i \<noteq> []"
      by (simp add: image_inputs_def)
    from materials_loop_file_paths [OF this, of hst "[]"] show ?thesis
      by (simp add: get_texture_data_loop image_inputs_def)
  qed
  have six: "file_record hst img
                = FileTexture (path_normpath hst (path_abspath hst (img_filepath img)))
                    (img_name img)"
    by (simp add: file_record_def)
  from one two three four five six show ?thesis
    by blast
qed

theorem file_path_takes_precedence_witness:
  "texture_of_image test_host wood_image
      = Inr (Some (FileTexture ''/textures/wood.png'' ''Wood''))
   \<and> img_packed_file wood_image
   \<and> decode_packed test_host wood_image = Inl (ValueError ''cannot reshape array'')
   \<and> image_inputs wood_object = [wood_image]
   \<and> get_texture_data test_host wood_object
       = Inr [FileTexture ''/textures/wood.png'' ''Wood'']"
proof -
  have path: "img_filepath wood_image \<noteq> []"
    by (simp add: wood_image_def)
  have inputs: "image_inputs wood_object = [wood_image]"
    by (simp add: image_inputs_def wood_object_def wood_material_def red_material_def)
  have all: "\<forall>i\<in>set (image_inputs wood_object). img_filepath i \<noteq> []"
    by (simp add: inputs path)
  note inst = file_path_takes_precedence [OF path, where hst = test_host and obj = wood_object]
  have "texture_of_image test_host wood_image
      = Inr (Some (FileTexture ''/textures/wood.png'' ''Wood''))"
    using inst by (simp add: wood_image_def test_host_def)
  moreover have "img_packed_file wood_image"
    by (simp add: wood_image_def)
  moreover have "decode_packed test_host wood_image = Inl (ValueError ''cannot reshape array'')"
    by (simp add: decode_packed_def wood_image_def reshape3_def)
  moreover from inst all
  have "get_texture_data test_host wood_object
          = Inr (map (file_record test_host) (image_inputs wood_object))"
    by blast
  then have "get_texture_data test_host wood_object
       = Inr [FileTexture ''/textures/wood.png'' ''Wood'']"
    by (simp add: inputs file_record_def wood_image_def test_host_def)
  ultimately show ?thesis
    using inputs by simp
qed

section \<open>The export loop\<close>

lemma backend_calls_append: "backend_calls (evs @ evs') = backend_calls evs @ backend_calls evs'"
  by (induction evs rule: backend_calls.induct) simp_all

lemma reports_append: "reports (evs @ evs') = reports evs @ reports evs'"
  by (induction evs rule: reports.induct) simp_all

lemma extract_data_events:
  "backend_calls (snd (extract_data obj)) = []" "reports (snd (extract_data obj)) = []"
  by (simp_all add: extract_data_def split: sum.splits)

lemma object_call_SomeD:
  assumes "object_call h self folder obj = Some call"
  obtains md textures where "fst (extract_data obj) = Inr (Some md)"
    and "get_texture_data h obj = Inr textures"
    and "call = call_args self folder md textures"
  using assms by (auto simp add: object_call_def split: sum.splits option.splits)

lemma export_loop_skip:
  "obj_type obj \<noteq> ''MESH'' \<Longrightarrow>
     export_loop h m self folder (obj # objs) = export_loop h m self folder objs"
  by simp

lemma export_loop_call:
  assumes "obj_type obj = ''MESH''" and "object_call h self folder obj = Some call"
    and "m call = None"
  shows "export_loop h m self folder (obj # objs) =
     (fst (export_loop h m self folder objs),
      snd (extract_data obj) @ ReadBlenderData call # snd (export_loop h m self folder objs))"
proof -
  from assms(2) obtain md textures where
    ex: "fst (extract_data obj) = Inr (Some md)" and
    tx: "get_texture_data h obj = Inr textures" and
    c: "call = call_args self folder md textures"
    by (rule object_call_SomeD)
  from ex have ex': "extract_data obj = (Inr (Some md), snd (extract_data obj))"
    by (metis prod.collapse)
  show ?thesis
    using assms(1,3) tx c
    by (subst export_loop.simps, subst ex') (simp add: case_prod_unfold)
qed

lemma export_loop_extract_raises:
  assumes "obj_type obj = ''MESH''" and "obj_eval_mesh obj = Inl e"
  shows "export_loop h m self folder (obj # objs) = (Some e, [ToMeshClear (obj_name obj)])"
  using assms by (simp add: extract_data_def)

lemma export_loop_clean:
  assumes "\<forall>obj\<in>set objs. obj_type obj = ''MESH'' \<longrightarrow> exports_cleanly h m self folder obj"
  shows "fst (export_loop h m self folder objs) = None
       \<and> map Some (backend_calls (snd (export_loop h m self folder objs)))
           = map (object_call h self folder) (filter is_mesh objs)
       \<and> reports (snd (export_loop h m self folder objs)) = []"
  using assms
proof (induction objs)
  case Nil
  show ?case by simp
next
  case (Cons obj objs)
  then have IH: "fst (export_loop h m self folder objs) = None
       \<and> map Some (backend_calls (snd (export_loop h m self folder objs)))
           = map (object_call h self folder) (filter is_mesh objs)
       \<and> reports (snd (export_loop h m self folder objs)) = []"
    by simp
  show ?case
  proof (cases "obj_type obj = ''MESH''")
    case False
    then have "\<not> is_mesh obj"
      by (simp add: is_mesh_def)
    with IH False show ?thesis
      by simp
  next
    case True
    with Cons.prems have "exports_cleanly h m self folder obj"
      by simp
    then obtain call where c: "object_call h self folder obj = Some call" and r: "m call = None"
      by (auto simp add: exports_cleanly_def split: option.splits)
    have "export_loop h m self folder (obj # objs) =
     (fst (export_loop h m self folder objs),
      snd (extract_data obj) @ ReadBlenderData call # snd (export_loop h m self folder objs))"
      using True c r by (rule export_loop_call)
    moreover have "is_mesh obj"
      using True by (simp add: is_mesh_def)
    ultimately show ?thesis
      using IH c
      by (simp add: backend_calls_append reports_append extract_data_events)
  qed
qed

lemma export_loop_append:
  "export_loop h m self folder (xs @ ys) =
     (case fst (export_loop h m self folder xs) of
        Some e \<Rightarrow> export_loop h m self folder xs
      | None \<Rightarrow> (fst (export_loop h m self folder ys),
                  snd (export_loop h m self folder xs) @ snd (export_loop h m self folder ys)))"
proof (induction xs)
  case Nil
  show ?case by simp
next
  case (Cons x xs)
  show ?case
  proof (cases "fst (export_loop h m self folder xs)")
    case None
    with Cons show ?thesis
      by (simp add: case_prod_unfold split: sum.splits option.splits)
  next
    case (Some e)
    with Cons show ?thesis
      by (simp add: case_prod_unfold split: sum.splits option.splits)
  qed
qed

lemma export_loop_options:
  "list_all (\<lambda>c. ba_draco_level c = op_draco_level self
                \<and> ba_jpeg_quality c = op_jpeg_quality self)
     (backend_calls (snd (export_loop h m self folder objs)))"
proof (induction objs)
  case Nil
  show ?case by simp
next
  case (Cons obj objs)
  then show ?case
    by (simp add: case_prod_unfold backend_calls_append extract_data_events call_args_def
          split: sum.splits option.splits)
qed

lemma backend_calls_member:
  assumes "map Some calls = map f objs" and "obj \<in> set objs" and "f obj = Some c"
  shows "c \<in> set calls"
proof -
  from assms(2,3) have "Some c \<in> set (map f objs)"
    by force
  with assms(1) have "Some c \<in> set (map Some calls)"
    by simp
  then show ?thesis by auto
qed

section \<open>The operator as a whole\<close>

lemma execute_loaded:
  assumes "import_glTFCompL h = Inr m" and "os_makedirs h (export_folder_of h self) = None"
  shows "execute h ctx self =
     (case export_loop h m self (export_folder_of h self) (chosen_objects ctx self) of
        (Some err, evs) \<Rightarrow> (Raised err, MakeDirs (export_folder_of h self) # evs)
      | (None, evs) \<Rightarrow>
          (FINISHED,
           MakeDirs (export_folder_of h self) # evs
             @ [Report ''INFO'' (''Export complete: '' @ op_filepath self)]))"
  using assms
  unfolding execute_def load_glTFCompL_module_def export_folder_of_def chosen_objects_def
  by (simp add: Let_def)

lemma execute_finished:
  assumes "import_glTFCompL h = Inr m" and "os_makedirs h (export_folder_of h self) = None"
    and "fst (export_loop h m self (export_folder_of h self) (chosen_objects ctx self)) = None"
  shows "execute h ctx self =
     (FINISHED,
      MakeDirs (export_folder_of h self)
        # snd (export_loop h m self (export_folder_of h self) (chosen_objects ctx self))
        @ [Report ''INFO'' (''Export complete: '' @ op_filepath self)])"
  using assms(3) unfolding execute_loaded [OF assms(1,2)]
  by (cases "export_loop h m self (export_folder_of h self) (chosen_objects ctx self)") simp

lemma execute_options:
  "list_all (\<lambda>c. ba_draco_level c = op_draco_level self
                \<and> ba_jpeg_quality c = op_jpeg_quality self)
     (backend_calls (snd (execute h ctx self)))"
proof (cases "import_glTFCompL h")
  case (Inl err)
  then show ?thesis
    by (cases err) (simp_all add: execute_def load_glTFCompL_module_def)
next
  case (Inr m)
  show ?thesis
  proof (cases "os_makedirs h (export_folder_of h self)")
    case (Some err)
    with Inr show ?thesis
      unfolding execute_def load_glTFCompL_module_def export_folder_of_def
      by (simp add: Let_def)
  next
    case None
    show ?thesis
      using export_loop_options [of self h m "export_folder_of h self" "chosen_objects ctx self"]
      unfolding execute_loaded [OF Inr None]
      by (simp add: case_prod_unfold backend_calls_append split: option.splits)
  qed
qed

section \<open>The examples, evaluated\<close>

lemma example_paths:
  "export_folder_of test_host export_options = ''/out''"
  by (simp add: export_folder_of_def test_host_def export_options_def posix_dirname_def)

lemma test_host_fields:
  "import_glTFCompL test_host = Inr (\<lambda>call. None)"
  "os_makedirs test_host d = None"
  by (simp_all add: test_host_def)

lemma example_types:
  "obj_type triangle_object = ''MESH''" "obj_type checker_object = ''MESH''"
  "obj_type camera_object \<noteq> ''MESH''"
  by (simp_all add: triangle_object_def checker_object_def camera_object_def)

lemma example_extractions:
  "extract_data triangle_object =
     (Inr (Some \<lparr> md_vertices = [(0, 0, 0), (1, 0, 0), (0, 1, 0)],
                  md_normals = [(0, 0, 1), (0, 0, 1), (0, 0, 1)],
                  md_indices = [0, 1, 2], md_uvs = None,
                  md_materials = map material_entry [red_material, steel_material],
                  md_name = ''Triangle'' \<rparr>), [ToMeshClear ''Triangle''])"
  "extract_data checker_object =
     (Inr (Some \<lparr> md_vertices = [(0, 0, 0), (1, 0, 0), (0, 1, 0)],
                  md_normals = [(0, 0, 1), (0, 0, 1), (0, 0, 1)],
                  md_indices = [0, 1, 2], md_uvs = None,
                  md_materials = map material_entry [red_material, steel_material],
                  md_name = ''Board'' \<rparr>), [ToMeshClear ''Board''])"
  by (simp_all add: extract_data_def triangle_object_def checker_object_def triangle_mesh_def)

lemma example_textures:
  "get_texture_data test_host triangle_object = Inr []"
  "get_texture_data test_host checker_object
     = Inr [PackedTexture ''Checker'' 2 1 2 [[[127, 255], [0, 63]]]]"
proof -
  show "get_texture_data test_host triangle_object = Inr []"
    by (simp add: get_texture_data_def triangle_object_def red_material_def steel_material_def)
  have "decode_packed test_host checker_image
          = Inr (PackedTexture ''Checker'' 2 1 2 [[[127, 255], [0, 63]]])"
    by (simp add: decode_packed_def checker_image_def reshape_example f32_mul_examples
          astype_uint8_examples)
  then have "texture_of_image test_host checker_image
          = Inr (Some (PackedTexture ''Checker'' 2 1 2 [[[127, 255], [0, 63]]]))"
    by (simp add: texture_of_image_def checker_image_def)
  then show "get_texture_data test_host checker_object
     = Inr [PackedTexture ''Checker'' 2 1 2 [[[127, 255], [0, 63]]]]"
    by (simp add: get_texture_data_def checker_object_def checker_material_def)
qed

lemma example_clean:
  "exports_cleanly test_host (\<lambda>call. None) self folder triangle_object"
  "exports_cleanly test_host (\<lambda>call. None) self folder checker_object"
  by (simp_all add: exports_cleanly_def object_call_def example_extractions example_textures)

lemma example_loops:
  "export_loop test_host (\<lambda>call. None) self folder [triangle_object]
     = (None, [ToMeshClear ''Triangle'',
               ReadBlenderData (call_args self folder
                 (\<lparr> md_vertices = [(0, 0, 0), (1, 0, 0), (0, 1, 0)],
                    md_normals = [(0, 0, 1), (0, 0, 1), (0, 0, 1)],
                    md_indices = [0, 1, 2], md_uvs = None,
                    md_materials = map material_entry [red_material, steel_material],
                    md_name = ''Triangle'' \<rparr>) [])])"
  "export_loop test_host (\<lambda>call. None) self folder [checker_object]
     = (None, [ToMeshClear ''Board'',
               ReadBlenderData (call_args self folder
                 (\<lparr> md_vertices = [(0, 0, 0), (1, 0, 0), (0, 1, 0)],
                    md_normals = [(0, 0, 1), (0, 0, 1), (0, 0, 1)],
                    md_indices = [0, 1, 2], md_uvs = None,
                    md_materials = map material_entry [red_material, steel_material],
                    md_name = ''Board'' \<rparr>)
                 [PackedTexture ''Checker'' 2 1 2 [[[127, 255], [0, 63]]]])])"
  by (simp_all add: example_types example_extractions example_textures)

lemma example_extraction_empty:
  "extract_data empty_object = (Inr (Some empty_data), [ToMeshClear ''Empty''])"
  by (simp add: extract_data_def empty_object_def empty_mesh_def empty_data_def)

lemma example_textures_empty: "get_texture_data h empty_object = Inr []"
  by (simp add: get_texture_data_def empty_object_def)

lemma example_type_empty: "obj_type empty_object = ''MESH''"
  by (simp add: empty_object_def)

lemma example_malformed:
  "obj_type malformed_object = ''MESH''"
  "extract_data malformed_object = (Inr (Some malformed_data), [ToMeshClear ''Broken''])"
  "get_texture_data h malformed_object = Inr []"
  by (simp_all add: extract_data_def get_texture_data_def malformed_object_def
        malformed_mesh_def malformed_data_def)

lemma example_faulty:
  "obj_type faulty_object = ''MESH''"
  "obj_eval_mesh faulty_object = Inl (ValueError ''inhomogeneous shape'')"
  "obj_name faulty_object = ''Faulty''"
  "extract_data faulty_object
     = (Inl (ValueError ''inhomogeneous shape''), [ToMeshClear ''Faulty''])"
  by (simp_all add: faulty_object_def extract_data_def)

section \<open>Loading the compression module\<close>

text \<open>Claim C4. When the import of the compression module raises \<^verbatim>\<open>ImportError\<close>,
  \<^verbatim>\<open>execute\<close> returns \<^verbatim>\<open>CANCELLED\<close> and its only effect is one report of level
  \<^verbatim>\<open>ERROR\<close>: no directory is created, no object is touched (no extraction, hence no
  release of a temporary mesh), and the compression module is not called.\<close>

theorem backend_unavailable_aborts:
  assumes "import_glTFCompL h = Inl (ImportError e)"
  shows "execute h ctx self
           = (CANCELLED, [Report ''ERROR'' (''Could not import glTFCompL: '' @ e)])
       \<and> reports (snd (execute h ctx self))
           = [(''ERROR'', ''Could not import glTFCompL: '' @ e)]
       \<and> backend_calls (snd (execute h ctx self)) = []"
  using assms by (simp add: execute_def load_glTFCompL_module_def)

theorem backend_unavailable_aborts_witness:
  "execute offline_host two_mesh_scene export_options
     = (CANCELLED, [Report ''ERROR'' ''Could not import glTFCompL: No module named glTFCompL''])
   \<and> backend_calls (snd (execute offline_host two_mesh_scene export_options)) = []"
proof -
  have "import_glTFCompL offline_host = Inl (ImportError ''No module named glTFCompL'')"
    by (simp add: offline_host_def)
  from backend_unavailable_aborts [OF this, of two_mesh_scene export_options]
  show ?thesis by simp
qed

section \<open>Calls of the compression module\<close>

text \<open>Claim C1 as stated fails: the call of the compression module stands inside the
  loop over the objects. A scene with two mesh objects and a camera gives two calls,
  the first with the mesh data of the first object alone and the second with that of
  the second; a scene with a camera only gives no call at all.\<close>

theorem backend_call_count_counterexample:
  "fst (execute test_host two_mesh_scene export_options) = FINISHED
   \<and> map (md_name \<circ> ba_mesh_data)
        (backend_calls (snd (execute test_host two_mesh_scene export_options)))
       = [''Triangle'', ''Board'']
   \<and> fst (execute test_host camera_scene export_options) = FINISHED
   \<and> backend_calls (snd (execute test_host camera_scene export_options)) = []"
proof -
  have two: "export_loop test_host (\<lambda>call. None) export_options ''/out''
          [triangle_object, camera_object, checker_object]
       = (None,
          [ToMeshClear ''Triangle'',
           ReadBlenderData (call_args export_options ''/out''
             (\<lparr> md_vertices = [(0, 0, 0), (1, 0, 0), (0, 1, 0)],
                  md_normals = [(0, 0, 1), (0, 0, 1), (0, 0, 1)],
                  md_indices = [0, 1, 2], md_uvs = None,
                  md_materials = map material_entry [red_material, steel_material],
                  md_name = ''Triangle'' \<rparr>) []),
           ToMeshClear ''Board'',
           ReadBlenderData (call_args export_options ''/out''
             (\<lparr> md_vertices = [(0, 0, 0), (1, 0, 0), (0, 1, 0)],
                  md_normals = [(0, 0, 1), (0, 0, 1), (0, 0, 1)],
                  md_indices = [0, 1, 2], md_uvs = None,
                  md_materials = map material_entry [red_material, steel_material],
                  md_name = ''Board'' \<rparr>)
             [PackedTexture ''Checker'' 2 1 2 [[[127, 255], [0, 63]]]])])"
    by (simp add: example_types example_extractions example_textures)
  have none: "export_loop test_host (\<lambda>call. None) export_options ''/out'' [camera_object]
       = (None, [])"
    by (simp add: example_types)
  have "chosen_objects two_mesh_scene export_options
          = [triangle_object, camera_object, checker_object]"
    "chosen_objects camera_scene export_options = [camera_object]"
    by (simp_all add: chosen_objects_def two_mesh_scene_def camera_scene_def export_options_def)
  with two none show ?thesis
    by (simp add: execute_loaded [OF test_host_fields] example_paths call_args_def)
qed

text \<open>Claim C1, amended. When the compression module loads, the directory creation
  succeeds, and for every mesh object of the exported set the extraction, the texture
  resolution and the call of the compression module return, \<^verbatim>\<open>execute\<close> calls the
  compression module once per mesh object (not at all for a set without mesh objects),
  in the order of the objects, each call with that one object's mesh data and textures
  and with the output folder, the file path and the compression options; it then
  reports the completed export once and returns \<^verbatim>\<open>FINISHED\<close>.\<close>

theorem one_backend_call_per_mesh_object:
  assumes load: "import_glTFCompL h = Inr m"
    and mk: "os_makedirs h (export_folder_of h self) = None"
    and clean: "\<forall>obj\<in>set (chosen_objects ctx self).
        obj_type obj = ''MESH'' \<longrightarrow> exports_cleanly h m self (export_folder_of h self) obj"
  shows "fst (execute h ctx self) = FINISHED
     \<and> map Some (backend_calls (snd (execute h ctx self)))
         = map (object_call h self (export_folder_of h self))
             (filter is_mesh (chosen_objects ctx self))
     \<and> length (backend_calls (snd (execute h ctx self)))
         = length (filter is_mesh (chosen_objects ctx self))
     \<and> reports (snd (execute h ctx self))
         = [(''INFO'', ''Export complete: '' @ op_filepath self)]"
proof -
  let ?loop = "export_loop h m self (export_folder_of h self) (chosen_objects ctx self)"
  from export_loop_clean [OF clean]
  have ok: "fst ?loop = None"
    and calls: "map Some (backend_calls (snd ?loop))
           = map (object_call h self (export_folder_of h self))
               (filter is_mesh (chosen_objects ctx self))"
    and reps: "reports (snd ?loop) = []"
    by blast+
  note ex = execute_finished [OF load mk ok]
  have c: "backend_calls (snd (execute h ctx self)) = backend_calls (snd ?loop)"
    by (simp add: ex backend_calls_append)
  have "length (map Some (backend_calls (snd ?loop)))
          = length (filter is_mesh (chosen_objects ctx self))"
    by (simp only: calls length_map)
  then have len: "length (backend_calls (snd ?loop))
          = length (filter is_mesh (chosen_objects ctx self))"
    by simp
  have r: "reports (snd (execute h ctx self))
         = [(''INFO'', ''Export complete: '' @ op_filepath self)]"
    by (simp add: ex reports_append reps)
  from ex c calls len r show ?thesis
    by simp
qed

theorem one_backend_call_per_mesh_object_witness:
  "fst (execute test_host two_mesh_scene export_options) = FINISHED
   \<and> length (backend_calls (snd (execute test_host two_mesh_scene export_options))) = 2
   \<and> reports (snd (execute test_host two_mesh_scene export_options))
       = [(''INFO'', ''Export complete: /out/scene.gltf'')]"
proof -
  have objs: "chosen_objects two_mesh_scene export_options
          = [triangle_object, camera_object, checker_object]"
    by (simp add: chosen_objects_def two_mesh_scene_def export_options_def)
  have clean: "\<forall>obj\<in>set (chosen_objects two_mesh_scene export_options).
        obj_type obj = ''MESH'' \<longrightarrow>
        exports_cleanly test_host (\<lambda>call. None) export_options
          (export_folder_of test_host export_options) obj"
    by (simp add: objs example_clean example_types)
  have meshes: "filter is_mesh (chosen_objects two_mesh_scene export_options)
          = [triangle_object, checker_object]"
    by (simp add: objs is_mesh_def example_types)
  from one_backend_call_per_mesh_object [OF test_host_fields clean]
  have fin: "fst (execute test_host two_mesh_scene export_options) = FINISHED"
    and len: "length (backend_calls (snd (execute test_host two_mesh_scene export_options)))
         = length (filter is_mesh (chosen_objects two_mesh_scene export_options))"
    and rep: "reports (snd (execute test_host two_mesh_scene export_options))
         = [(''INFO'', ''Export complete: '' @ op_filepath export_options)]"
    by blast+
  have "length (backend_calls (snd (execute test_host two_mesh_scene export_options))) = 2"
    using len by (simp add: meshes)
  moreover have "reports (snd (execute test_host two_mesh_scene export_options))
       = [(''INFO'', ''Export complete: /out/scene.gltf'')]"
    using rep by (simp add: export_options_def)
  ultimately show ?thesis
    using fin by simp
qed

section \<open>Empty meshes\<close>

text \<open>Claim C2 as stated fails: for an object of type \<^verbatim>\<open>MESH\<close> \<^verbatim>\<open>extract_data\<close> always
  returns the dictionary, which is true in Python whatever its arrays hold, so
  \<^verbatim>\<open>if not mesh_data: continue\<close> does not skip an empty mesh. A mesh object without
  vertices and triangles is extracted to a dictionary with empty arrays and the
  compression module is called with it.\<close>

theorem empty_mesh_counterexample:
  "fst (extract_data empty_object) = Inr (Some empty_data)
   \<and> md_vertices empty_data = [] \<and> md_indices empty_data = []
   \<and> execute test_host empty_scene export_options
       = (FINISHED,
          [MakeDirs ''/out'', ToMeshClear ''Empty'',
           ReadBlenderData (call_args export_options ''/out'' empty_data []),
           Report ''INFO'' ''Export complete: /out/scene.gltf''])"
proof -
  have loop: "export_loop test_host (\<lambda>call. None) export_options ''/out'' [empty_object]
       = (None, [ToMeshClear ''Empty'',
                 ReadBlenderData (call_args export_options ''/out'' empty_data [])])"
    by (simp add: example_type_empty example_extraction_empty example_textures_empty)
  have objs: "chosen_objects empty_scene export_options = [empty_object]"
    by (simp add: chosen_objects_def empty_scene_def export_options_def)
  have "execute test_host empty_scene export_options
       = (FINISHED,
          [MakeDirs ''/out'', ToMeshClear ''Empty'',
           ReadBlenderData (call_args export_options ''/out'' empty_data []),
           Report ''INFO'' (''Export complete: '' @ op_filepath export_options)])"
    unfolding execute_loaded [OF test_host_fields] example_paths objs loop
    by simp
  then show ?thesis
    by (simp add: example_extraction_empty empty_data_def export_options_def)
qed

text \<open>Claim C2, amended. For a mesh object whose mesh has no vertices or no triangles
  the extraction returns a dictionary (whose vertex array, respectively index array, is
  empty), never an empty result, and the object is not skipped: it gets its call of the
  compression module like every other mesh object. An export of a set of only such
  objects returns \<^verbatim>\<open>FINISHED\<close> after one call per object, provided the module loads,
  the directory creation succeeds and the texture resolution and the call return for
  each object.\<close>

theorem empty_mesh_is_exported:
  assumes load: "import_glTFCompL h = Inr m"
    and mk: "os_makedirs h (export_folder_of h self) = None"
    and all: "\<forall>obj\<in>set (chosen_objects ctx self).
        obj_type obj = ''MESH'' \<and> degenerate obj
        \<and> exports_cleanly h m self (export_folder_of h self) obj"
  shows "fst (execute h ctx self) = FINISHED
     \<and> length (backend_calls (snd (execute h ctx self))) = length (chosen_objects ctx self)
     \<and> (\<forall>obj\<in>set (chosen_objects ctx self).
           \<exists>md textures. fst (extract_data obj) = Inr (Some md)
              \<and> (md_vertices md = [] \<or> md_indices md = [])
              \<and> call_args self (export_folder_of h self) md textures
                    \<in> set (backend_calls (snd (execute h ctx self))))"
proof -
  let ?objs = "chosen_objects ctx self"
  let ?folder = "export_folder_of h self"
  let ?loop = "export_loop h m self ?folder ?objs"
  have clean: "\<forall>obj\<in>set ?objs. obj_type obj = ''MESH'' \<longrightarrow> exports_cleanly h m self ?folder obj"
    using all by simp
  from export_loop_clean [OF clean]
  have ok: "fst ?loop = None"
    and calls: "map Some (backend_calls (snd ?loop)) = map (object_call h self ?folder) (filter is_mesh ?objs)"
    by blast+
  have "filter is_mesh ?objs = ?objs"
    using all by (simp add: is_mesh_def)
  with calls have calls': "map Some (backend_calls (snd ?loop)) = map (object_call h self ?folder) ?objs"
    by simp
  note ex = execute_finished [OF load mk ok]
  have c: "backend_calls (snd (execute h ctx self)) = backend_calls (snd ?loop)"
    by (simp add: ex backend_calls_append)
  have "length (map Some (backend_calls (snd ?loop))) = length ?objs"
    by (simp only: calls' length_map)
  then have len: "length (backend_calls (snd (execute h ctx self))) = length ?objs"
    by (simp add: c)
  have each: "\<exists>md textures. fst (extract_data obj) = Inr (Some md)
              \<and> (md_vertices md = [] \<or> md_indices md = [])
              \<and> call_args self ?folder md textures \<in> set (backend_calls (snd (execute h ctx self)))"
    if mem: "obj \<in> set ?objs" for obj
  proof -
    from all mem have type: "obj_type obj = ''MESH''" and deg: "degenerate obj"
      and cl: "exports_cleanly h m self ?folder obj"
      by blast+
    from cl obtain call where oc: "object_call h self ?folder obj = Some call"
      by (auto simp add: exports_cleanly_def split: option.splits)
    then obtain md textures where md: "fst (extract_data obj) = Inr (Some md)"
      and call: "call = call_args self ?folder md textures"
      by (rule object_call_SomeD)
    from deg obtain mesh where mesh: "obj_eval_mesh obj = Inr mesh"
      and empty: "mesh_vertices mesh = [] \<or> mesh_loop_triangles mesh = []"
      by (auto simp add: degenerate_def split: sum.splits)
    from extract_data_mesh [OF type mesh] md
    have "md_vertices md = mesh_vertices mesh"
      and "md_indices md = flatten_triangles (mesh_loop_triangles mesh)"
      by auto
    with empty have e: "md_vertices md = [] \<or> md_indices md = []"
      by auto
    have "call \<in> set (backend_calls (snd ?loop))"
      using calls' mem oc by (rule backend_calls_member)
    with c call have "call_args self ?folder md textures \<in> set (backend_calls (snd (execute h ctx self)))"
      by simp
    with md e show ?thesis by blast
  qed
  from ex len each show ?thesis
    by simp
qed

theorem empty_mesh_is_exported_witness:
  "fst (execute test_host empty_scene export_options) = FINISHED
   \<and> length (backend_calls (snd (execute test_host empty_scene export_options))) = 1"
proof -
  have objs: "chosen_objects empty_scene export_options = [empty_object]"
    by (simp add: chosen_objects_def empty_scene_def export_options_def)
  have "degenerate empty_object"
    by (simp add: degenerate_def empty_object_def empty_mesh_def)
  moreover have "exports_cleanly test_host (\<lambda>call. None) export_options
          (export_folder_of test_host export_options) empty_object"
    by (simp add: exports_cleanly_def object_call_def example_extraction_empty
          example_textures_empty)
  ultimately have all: "\<forall>obj\<in>set (chosen_objects empty_scene export_options).
        obj_type obj = ''MESH'' \<and> degenerate obj
        \<and> exports_cleanly test_host (\<lambda>call. None) export_options
            (export_folder_of test_host export_options) obj"
    by (simp add: objs example_type_empty)
  from empty_mesh_is_exported [OF test_host_fields all]
  have "fst (execute test_host empty_scene export_options) = FINISHED"
    and "length (backend_calls (snd (execute test_host empty_scene export_options)))
           = length (chosen_objects empty_scene export_options)"
    by blast+
  then show ?thesis
    by (simp add: objs)
qed

section \<open>Malformed objects\<close>

text \<open>Claim C5 as stated fails: the loop of \<^verbatim>\<open>execute\<close> has no handler and
  \<^verbatim>\<open>extract_data\<close> checks nothing. An object whose only triangle names the vertices 0,
  1 and 5 of a one-vertex mesh is extracted without failure, is passed to the
  compression module with these indices, and the only report is the final one. An
  object whose extraction raises ends the export with that exception: nothing is
  reported and the object after it is never processed.\<close>

theorem malformed_object_counterexample:
  "fst (execute test_host malformed_scene export_options) = FINISHED
   \<and> reports (snd (execute test_host malformed_scene export_options))
       = [(''INFO'', ''Export complete: /out/scene.gltf'')]
   \<and> map (md_indices \<circ> ba_mesh_data)
        (backend_calls (snd (execute test_host malformed_scene export_options)))
       = [[0, 1, 2], [0, 1, 5], [0, 1, 2]]
   \<and> fst (execute test_host faulty_scene export_options)
       = Raised (ValueError ''inhomogeneous shape'')
   \<and> reports (snd (execute test_host faulty_scene export_options)) = []
   \<and> map (md_name \<circ> ba_mesh_data)
        (backend_calls (snd (execute test_host faulty_scene export_options)))
       = [''Triangle'']"
proof -
  have mal: "export_loop test_host (\<lambda>call. None) export_options ''/out''
          [triangle_object, malformed_object, checker_object]
       = (None,
          snd (export_loop test_host (\<lambda>call. None) export_options ''/out'' [triangle_object])
          @ [ToMeshClear ''Broken'',
             ReadBlenderData (call_args export_options ''/out'' malformed_data [])]
          @ snd (export_loop test_host (\<lambda>call. None) export_options ''/out'' [checker_object]))"
    by (simp add: example_types example_extractions example_textures example_malformed)
  have fau: "export_loop test_host (\<lambda>call. None) export_options ''/out''
          [triangle_object, faulty_object, checker_object]
       = (Some (ValueError ''inhomogeneous shape''),
          snd (export_loop test_host (\<lambda>call. None) export_options ''/out'' [triangle_object])
          @ [ToMeshClear ''Faulty''])"
    by (simp add: example_types example_extractions example_textures example_faulty)
  have objs: "chosen_objects malformed_scene export_options
          = [triangle_object, malformed_object, checker_object]"
    "chosen_objects faulty_scene export_options
          = [triangle_object, faulty_object, checker_object]"
    by (simp_all add: chosen_objects_def malformed_scene_def faulty_scene_def export_options_def)
  have one: "execute test_host malformed_scene export_options
       = (FINISHED,
          MakeDirs ''/out''
          # (snd (export_loop test_host (\<lambda>call. None) export_options ''/out'' [triangle_object])
             @ [ToMeshClear ''Broken'',
                ReadBlenderData (call_args export_options ''/out'' malformed_data [])]
             @ snd (export_loop test_host (\<lambda>call. None) export_options ''/out'' [checker_object]))
          @ [Report ''INFO'' (''Export complete: '' @ op_filepath export_options)])"
    unfolding execute_loaded [OF test_host_fields] example_paths objs mal
    by simp
  have two: "execute test_host faulty_scene export_options
       = (Raised (ValueError ''inhomogeneous shape''),
          MakeDirs ''/out''
          # snd (export_loop test_host (\<lambda>call. None) export_options ''/out'' [triangle_object])
          @ [ToMeshClear ''Faulty''])"
    unfolding execute_loaded [OF test_host_fields] example_paths objs fau
    by simp
  show ?thesis
    unfolding one two example_loops
    by (simp add: call_args_def malformed_data_def export_options_def)
qed

text \<open>Claim C5, amended. There is no per-object failure handling. An object of the
  exported set whose extraction and texture resolution return is handed to the
  compression module with exactly the indices the host supplied, in range or not, and
  without any report; the events of the objects before it stay as they are and the
  objects after it are processed as usual. An object whose extraction raises ends the
  export: after the release of its temporary mesh the exception leaves \<^verbatim>\<open>execute\<close>,
  nothing is reported, no later object is processed, and the calls already made for
  the objects before it remain.\<close>

theorem no_per_object_failure_handling:
  assumes load: "import_glTFCompL h = Inr m"
    and mk: "os_makedirs h (export_folder_of h self) = None"
    and objs: "chosen_objects ctx self = before @ obj # after"
    and type: "obj_type obj = ''MESH''"
    and before: "\<forall>ob\<in>set before.
        obj_type ob = ''MESH'' \<longrightarrow> exports_cleanly h m self (export_folder_of h self) ob"
  shows "(\<forall>mesh md textures.
            obj_eval_mesh obj = Inr mesh \<and> fst (extract_data obj) = Inr (Some md)
            \<and> get_texture_data h obj = Inr textures
            \<and> m (call_args self (export_folder_of h self) md textures) = None \<longrightarrow>
            md_indices md = flatten_triangles (mesh_loop_triangles mesh)
            \<and> export_loop h m self (export_folder_of h self) (before @ obj # after)
               = (fst (export_loop h m self (export_folder_of h self) after),
                  snd (export_loop h m self (export_folder_of h self) before)
                  @ ToMeshClear (obj_name obj)
                  # ReadBlenderData (call_args self (export_folder_of h self) md textures)
                  # snd (export_loop h m self (export_folder_of h self) after)))
       \<and> (\<forall>e. obj_eval_mesh obj = Inl e \<longrightarrow>
            execute h ctx self
              = (Raised e,
                 MakeDirs (export_folder_of h self)
                 # snd (export_loop h m self (export_folder_of h self) before)
                 @ [ToMeshClear (obj_name obj)])
            \<and> reports (snd (execute h ctx self)) = [])"
proof -
  let ?F = "export_folder_of h self"
  from export_loop_clean [OF before]
  have ok: "fst (export_loop h m self ?F before) = None"
    and reps: "reports (snd (export_loop h m self ?F before)) = []"
    by blast+
  have app: "export_loop h m self ?F (before @ ys)
      = (fst (export_loop h m self ?F ys),
         snd (export_loop h m self ?F before) @ snd (export_loop h m self ?F ys))" for ys
    using ok by (simp add: export_loop_append)
  have a: "md_indices md = flatten_triangles (mesh_loop_triangles mesh)
            \<and> export_loop h m self ?F (before @ obj # after)
               = (fst (export_loop h m self ?F after),
                  snd (export_loop h m self ?F before)
                  @ ToMeshClear (obj_name obj)
                  # ReadBlenderData (call_args self ?F md textures)
                  # snd (export_loop h m self ?F after))"
    if mesh: "obj_eval_mesh obj = Inr mesh" and md: "fst (extract_data obj) = Inr (Some md)"
      and tex: "get_texture_data h obj = Inr textures"
      and ret: "m (call_args self ?F md textures) = None"
    for mesh md textures
  proof -
    note ex = extract_data_mesh [OF type mesh]
    from ex md have ind: "md_indices md = flatten_triangles (mesh_loop_triangles mesh)"
      by auto
    from ex have evs: "snd (extract_data obj) = [ToMeshClear (obj_name obj)]"
      by simp
    have call: "object_call h self ?F obj = Some (call_args self ?F md textures)"
      using md tex by (simp add: object_call_def)
    have "export_loop h m self ?F (obj # after)
        = (fst (export_loop h m self ?F after),
           snd (extract_data obj) @ ReadBlenderData (call_args self ?F md textures)
             # snd (export_loop h m self ?F after))"
      using type call ret by (rule export_loop_call)
    with ind show ?thesis
      by (simp add: app evs)
  qed
  have b: "execute h ctx self
              = (Raised e, MakeDirs ?F # snd (export_loop h m self ?F before)
                             @ [ToMeshClear (obj_name obj)])
            \<and> reports (snd (execute h ctx self)) = []"
    if raised: "obj_eval_mesh obj = Inl e" for e
  proof -
    have "export_loop h m self ?F (obj # after) = (Some e, [ToMeshClear (obj_name obj)])"
      using type raised by (rule export_loop_extract_raises)
    then have "export_loop h m self ?F (chosen_objects ctx self)
        = (Some e, snd (export_loop h m self ?F before) @ [ToMeshClear (obj_name obj)])"
      by (simp add: objs app)
    then have ex: "execute h ctx self
              = (Raised e, MakeDirs ?F # snd (export_loop h m self ?F before)
                             @ [ToMeshClear (obj_name obj)])"
      unfolding execute_loaded [OF load mk] by simp
    then show ?thesis
      by (simp add: reports_append reps)
  qed
  from a b show ?thesis
    by blast
qed

theorem no_per_object_failure_handling_witness:
  "md_indices malformed_data = [0, 1, 5]
   \<and> export_loop test_host (\<lambda>call. None) export_options ''/out''
        ([triangle_object] @ malformed_object # [checker_object])
       = (None,
          snd (export_loop test_host (\<lambda>call. None) export_options ''/out'' [triangle_object])
          @ ToMeshClear ''Broken''
          # ReadBlenderData (call_args export_options ''/out'' malformed_data [])
          # snd (export_loop test_host (\<lambda>call. None) export_options ''/out'' [checker_object]))
   \<and> execute test_host faulty_scene export_options
       = (Raised (ValueError ''inhomogeneous shape''),
          MakeDirs ''/out''
          # snd (export_loop test_host (\<lambda>call. None) export_options ''/out'' [triangle_object])
          @ [ToMeshClear ''Faulty''])
   \<and> reports (snd (execute test_host faulty_scene export_options)) = []"
proof -
  have before: "\<forall>ob\<in>set [triangle_object].
        obj_type ob = ''MESH'' \<longrightarrow>
        exports_cleanly test_host (\<lambda>call. None) export_options
          (export_folder_of test_host export_options) ob"
    by (simp add: example_clean)
  have objs1: "chosen_objects malformed_scene export_options
          = [triangle_object] @ malformed_object # [checker_object]"
    and objs2: "chosen_objects faulty_scene export_options
          = [triangle_object] @ faulty_object # [checker_object]"
    by (simp_all add: chosen_objects_def malformed_scene_def faulty_scene_def export_options_def)
  have mesh: "obj_eval_mesh malformed_object = Inr malformed_mesh"
    by (simp add: malformed_object_def)
  have md: "fst (extract_data malformed_object) = Inr (Some malformed_data)"
    by (simp add: example_malformed)
  have broken: "obj_name malformed_object = ''Broken''"
    by (simp add: malformed_object_def)
  have tris: "flatten_triangles (mesh_loop_triangles malformed_mesh) = [0, 1, 5]"
    by (simp add: malformed_mesh_def)
  have last: "fst (export_loop test_host (\<lambda>call. None) export_options ''/out'' [checker_object])
          = None"
    unfolding example_loops by simp
  from no_per_object_failure_handling
         [OF test_host_fields objs1 example_malformed(1) before]
  have "md_indices malformed_data = flatten_triangles (mesh_loop_triangles malformed_mesh)
      \<and> export_loop test_host (\<lambda>call. None) export_options
          (export_folder_of test_host export_options)
          ([triangle_object] @ malformed_object # [checker_object])
       = (fst (export_loop test_host (\<lambda>call. None) export_options
                 (export_folder_of test_host export_options) [checker_object]),
          snd (export_loop test_host (\<lambda>call. None) export_options
                 (export_folder_of test_host export_options) [triangle_object])
          @ ToMeshClear (obj_name malformed_object)
          # ReadBlenderData (call_args export_options
                (export_folder_of test_host export_options) malformed_data [])
          # snd (export_loop test_host (\<lambda>call. None) export_options
                 (export_folder_of test_host export_options) [checker_object]))"
    using mesh md example_malformed(3) by blast
  then have first: "md_indices malformed_data = [0, 1, 5]
   \<and> export_loop test_host (\<lambda>call. None) export_options ''/out''
        ([triangle_object] @ malformed_object # [checker_object])
       = (None,
          snd (export_loop test_host (\<lambda>call. None) export_options ''/out'' [triangle_object])
          @ ToMeshClear ''Broken''
          # ReadBlenderData (call_args export_options ''/out'' malformed_data [])
          # snd (export_loop test_host (\<lambda>call. None) export_options ''/out'' [checker_object]))"
    unfolding example_paths tris last broken .
  from no_per_object_failure_handling
         [OF test_host_fields objs2 example_faulty(1) before]
  have "execute test_host faulty_scene export_options
       = (Raised (ValueError ''inhomogeneous shape''),
          MakeDirs (export_folder_of test_host export_options)
          # snd (export_loop test_host (\<lambda>call. None) export_options
                   (export_folder_of test_host export_options) [triangle_object])
          @ [ToMeshClear (obj_name faulty_object)])
     \<and> reports (snd (execute test_host faulty_scene export_options)) = []"
    using example_faulty(2) by blast
  then have second: "execute test_host faulty_scene export_options
       = (Raised (ValueError ''inhomogeneous shape''),
          MakeDirs ''/out''
          # snd (export_loop test_host (\<lambda>call. None) export_options ''/out'' [triangle_object])
          @ [ToMeshClear ''Faulty''])
     \<and> reports (snd (execute test_host faulty_scene export_options)) = []"
    unfolding example_paths example_faulty(3) .
  from first second show ?thesis
    by blast
qed

section \<open>The limits of the compression options\<close>

lemma IntProperty_assign_Inr:
  assumes "lo \<le> hi" and "IntProperty_assign lo hi v = Inr stored"
  shows "c_int v \<and> stored = max lo (min hi v) \<and> lo \<le> stored \<and> stored \<le> hi"
  using assms by (auto simp add: IntProperty_assign_def split: if_splits)

lemma IntProperty_assign_c_int:
  "c_int v \<Longrightarrow> lo \<le> hi \<Longrightarrow> IntProperty_assign lo hi v = Inr (max lo (min hi v))"
  by (auto simp add: IntProperty_assign_def)

lemma assign_properties_Inr:
  assumes "assign_properties requested = Inr self"
  shows "1 \<le> op_draco_level self \<and> op_draco_level self \<le> 9
       \<and> 1 \<le> op_jpeg_quality self \<and> op_jpeg_quality self \<le> 100"
proof -
  from assms obtain level quality where
    l: "IntProperty_assign 1 9 (op_draco_level requested) = Inr level" and
    q: "IntProperty_assign 1 100 (op_jpeg_quality requested) = Inr quality" and
    self: "self = requested \<lparr> op_draco_level := level, op_jpeg_quality := quality \<rparr>"
    by (auto simp add: assign_properties_def split: sum.splits)
  from IntProperty_assign_Inr [OF _ l] have "1 \<le> level \<and> level \<le> 9"
    by simp
  moreover from IntProperty_assign_Inr [OF _ q] have "1 \<le> quality \<and> quality \<le> 100"
    by simp
  ultimately show ?thesis
    by (simp add: self)
qed

lemma example_limited_run:
  "execute test_host two_mesh_scene limited_options
     = (FINISHED,
        MakeDirs ''/out''
        # (snd (export_loop test_host (\<lambda>call. None) limited_options ''/out'' [triangle_object])
           @ snd (export_loop test_host (\<lambda>call. None) limited_options ''/out'' [checker_object]))
        @ [Report ''INFO'' ''Export complete: /out/scene.gltf''])"
proof -
  have fields: "op_filepath limited_options = ''/out/scene.gltf''"
    "op_export_selected limited_options = False"
    by (simp_all add: limited_options_def export_options_def)
  have folder: "export_folder_of test_host limited_options = ''/out''"
    by (simp add: export_folder_of_def fields test_host_def posix_dirname_def)
  have objs: "chosen_objects two_mesh_scene limited_options
          = [triangle_object] @ camera_object # [checker_object]"
    by (simp add: chosen_objects_def fields two_mesh_scene_def)
  have skip: "export_loop test_host (\<lambda>call. None) limited_options ''/out''
                (camera_object # [checker_object])
          = export_loop test_host (\<lambda>call. None) limited_options ''/out'' [checker_object]"
    using example_types(3) by (rule export_loop_skip)
  have loop: "export_loop test_host (\<lambda>call. None) limited_options ''/out''
                ([triangle_object] @ camera_object # [checker_object])
     = (None,
        snd (export_loop test_host (\<lambda>call. None) limited_options ''/out'' [triangle_object])
        @ snd (export_loop test_host (\<lambda>call. None) limited_options ''/out'' [checker_object]))"
    unfolding export_loop_append skip example_loops by simp
  show ?thesis
    unfolding execute_loaded [OF test_host_fields] folder objs loop
    by (simp add: fields)
qed

text \<open>Claim C6. No call of the compression module receives a \<^verbatim>\<open>draco_level\<close> outside
  1..9 or a \<^verbatim>\<open>jpeg_quality\<close> outside 1..100, whatever values are requested. A
  requested value that is no C int is refused when it is assigned: the operator ends
  with \<^verbatim>\<open>ValueError\<close> before \<^verbatim>\<open>execute\<close> runs, with no event at all. A requested C
  int beyond a hard limit is replaced by that limit when it is assigned, and the export
  runs with the limit. \<^verbatim>\<open>execute\<close> itself passes the stored values unchanged to every
  call.\<close>

theorem backend_options_within_limits:
  "list_all (\<lambda>c. 1 \<le> ba_draco_level c \<and> ba_draco_level c \<le> 9
                \<and> 1 \<le> ba_jpeg_quality c \<and> ba_jpeg_quality c \<le> 100)
     (backend_calls (snd (run_operator h ctx requested)))
   \<and> (\<not> (c_int (op_draco_level requested) \<and> c_int (op_jpeg_quality requested)) \<longrightarrow>
        run_operator h ctx requested = (Raised (ValueError ''value not in int range''), []))
   \<and> (c_int (op_draco_level requested) \<and> c_int (op_jpeg_quality requested) \<longrightarrow>
        run_operator h ctx requested
          = execute h ctx
              (requested \<lparr> op_draco_level := max 1 (min 9 (op_draco_level requested)),
                            op_jpeg_quality := max 1 (min 100 (op_jpeg_quality requested)) \<rparr>))
   \<and> list_all (\<lambda>c. ba_draco_level c = op_draco_level self
                    \<and> ba_jpeg_quality c = op_jpeg_quality self)
       (backend_calls (snd (execute h ctx self)))"
proof -
  have one: "list_all (\<lambda>c. 1 \<le> ba_draco_level c \<and> ba_draco_level c \<le> 9
                \<and> 1 \<le> ba_jpeg_quality c \<and> ba_jpeg_quality c \<le> 100)
     (backend_calls (snd (run_operator h ctx requested)))"
  proof (cases "assign_properties requested")
    case (Inl e)
    then show ?thesis
      by (simp add: run_operator_def)
  next
    case (Inr stored)
    have "list_all (\<lambda>c. ba_draco_level c = op_draco_level stored
                    \<and> ba_jpeg_quality c = op_jpeg_quality stored)
       (backend_calls (snd (execute h ctx stored)))"
      by (rule execute_options)
    with assign_properties_Inr [OF Inr] show ?thesis
      unfolding list_all_iff by (simp add: run_operator_def Inr)
  qed
  have two: "run_operator h ctx requested = (Raised (ValueError ''value not in int range''), [])"
    if "\<not> (c_int (op_draco_level requested) \<and> c_int (op_jpeg_quality requested))"
    using that
    by (auto simp add: run_operator_def assign_properties_def IntProperty_assign_def)
  have three: "run_operator h ctx requested
          = execute h ctx
              (requested \<lparr> op_draco_level := max 1 (min 9 (op_draco_level requested)),
                            op_jpeg_quality := max 1 (min 100 (op_jpeg_quality requested)) \<rparr>)"
    if "c_int (op_draco_level requested) \<and> c_int (op_jpeg_quality requested)"
    using that
    by (simp add: run_operator_def assign_properties_def IntProperty_assign_c_int)
  have four: "list_all (\<lambda>c. ba_draco_level c = op_draco_level self
                    \<and> ba_jpeg_quality c = op_jpeg_quality self)
       (backend_calls (snd (execute h ctx self)))"
    by (rule execute_options)
  from one two three four show ?thesis
    by blast
qed

theorem backend_options_within_limits_witness:
  "run_operator test_host two_mesh_scene out_of_range_options
     = execute test_host two_mesh_scene limited_options
   \<and> map ba_draco_level
        (backend_calls (snd (run_operator test_host two_mesh_scene out_of_range_options)))
       = [9, 9]
   \<and> map ba_jpeg_quality
        (backend_calls (snd (run_operator test_host two_mesh_scene out_of_range_options)))
       = [1, 1]
   \<and> list_all (\<lambda>c. 1 \<le> ba_draco_level c \<and> ba_draco_level c \<le> 9
                    \<and> 1 \<le> ba_jpeg_quality c \<and> ba_jpeg_quality c \<le> 100)
       (backend_calls (snd (run_operator test_host two_mesh_scene out_of_range_options)))
   \<and> run_operator test_host two_mesh_scene huge_options
       = (Raised (ValueError ''value not in int range''), [])"
proof -
  have ints: "c_int (op_draco_level out_of_range_options)
              \<and> c_int (op_jpeg_quality out_of_range_options)"
    by (simp add: c_int_def out_of_range_options_def export_options_def)
  have stored: "out_of_range_options
        \<lparr> op_draco_level := max 1 (min 9 (op_draco_level out_of_range_options)),
          op_jpeg_quality := max 1 (min 100 (op_jpeg_quality out_of_range_options)) \<rparr>
      = limited_options"
    by (simp add: out_of_range_options_def limited_options_def export_options_def)
  have huge: "\<not> (c_int (op_draco_level huge_options) \<and> c_int (op_jpeg_quality huge_options))"
    by (simp add: c_int_def huge_options_def)
  note thm1 = backend_options_within_limits
                [of test_host two_mesh_scene out_of_range_options limited_options]
  note thm2 = backend_options_within_limits
                [of test_host two_mesh_scene huge_options limited_options]
  from thm1 ints have run: "run_operator test_host two_mesh_scene out_of_range_options
     = execute test_host two_mesh_scene limited_options"
    unfolding stored by blast
  have calls: "map ba_draco_level
        (backend_calls (snd (execute test_host two_mesh_scene limited_options))) = [9, 9]"
    "map ba_jpeg_quality
        (backend_calls (snd (execute test_host two_mesh_scene limited_options))) = [1, 1]"
    unfolding example_limited_run example_loops
    by (simp_all add: call_args_def limited_options_def)
  from thm1 have limits: "list_all (\<lambda>c. 1 \<le> ba_draco_level c \<and> ba_draco_level c \<le> 9
                    \<and> 1 \<le> ba_jpeg_quality c \<and> ba_jpeg_quality c \<le> 100)
       (backend_calls (snd (run_operator test_host two_mesh_scene out_of_range_options)))"
    by blast
  from thm2 huge have refused: "run_operator test_host two_mesh_scene huge_options
       = (Raised (ValueError ''value not in int range''), [])"
    by blast
  from run calls limits refused show ?thesis
    by simp
qed

end
